theory Spec2Isabelle
  imports Main "HOL-Library.Sublist"
begin

section \<open>A Gmail tool server: MIME codec and request handlers\<close>

text \<open>
  The development embeds the MIME envelope encoder (\<open>buildRawEmail\<close>, in the tool
  server and in the send-email webhook), the message parser (\<open>parseMessage\<close>), the
  base64url helpers and the request handlers whose behaviour goes beyond passing
  arguments through: \<open>search_emails\<close>, the two batch tools, \<open>create_filter\<close>,
  \<open>reply_to_email\<close> and the webhook's \<open>POST\<close>.

  A JavaScript string is represented by the bytes of its UTF-8 encoding, so
  \<open>Buffer.from(s)\<close> is the identity on the representation and
  \<open>buf.toString('utf-8')\<close> is \<open>utf8_toString\<close>, which copies well-formed sequences
  and puts U+FFFD in place of each ill-formed one. A call of the mail provider is an
  argument of the handler (a function that returns an error or a response), and each
  handler returns the calls it issued together with its outcome.
\<close>

subsection \<open>Base64 and base64url\<close>

text \<open>
  \<open>Buffer.from(s).toString('base64')\<close> is \<open>toBase64\<close>: three bytes give four
  characters of the standard alphabet, and the last group is padded with \<open>=\<close>.
  \<open>b64_char\<close> is the alphabet (\<open>A\<close> to \<open>Z\<close>, \<open>a\<close> to \<open>z\<close>, \<open>0\<close> to \<open>9\<close>, \<open>+\<close>, \<open>/\<close>).
\<close>

definition b64_char :: "nat \<Rightarrow> char" where
  "b64_char i =
     (if i < 26 then char_of (65 + i)
      else if i < 52 then char_of (71 + i)
      else if i < 62 then char_of (i - 4)
      else if i = 62 then CHR ''+''
      else CHR ''/'')"

text \<open>
  \<open>Buffer.from(s, 'base64')\<close> is \<open>fromBase64\<close>. Node's decoder reads the string one
  UTF-16 code unit at a time and keeps the low byte of each unit (\<open>unit_bytes\<close>; the
  units of the represented string are \<open>utf16_units\<close>, and a byte sequence that encodes no
  character stands for U+FFFD). On these bytes it accepts the standard and the URL-safe
  alphabet alike (\<open>unbase64\<close>), skips every other byte, stops at the first \<open>=\<close>, and
  turns each group of four sextets into three bytes; a final group of three or two
  sextets gives two bytes or one, and a single left-over sextet gives none. It never
  fails.
\<close>

definition in_range :: "nat \<Rightarrow> nat \<Rightarrow> char \<Rightarrow> bool" where
  "in_range lo hi c = (lo \<le> of_char c \<and> (of_char c :: nat) \<le> hi)"

fun utf16_units :: "string \<Rightarrow> nat list" where
  "utf16_units [] = []"
| "utf16_units (b # bs) =
     (if in_range 0 127 b then of_char b # utf16_units bs
      else if in_range 194 223 b then
        (case bs of
           [] \<Rightarrow> [65533]
         | c # cs \<Rightarrow>
             if in_range 128 191 c
             then ((of_char b - 192) * 64 + (of_char c - 128)) # utf16_units cs
             else 65533 # utf16_units bs)
      else if in_range 224 239 b then
        (case bs of
           [] \<Rightarrow> [65533]
         | c # cs \<Rightarrow>
             if \<not> in_range (if of_char b = (224::nat) then 160 else 128)
                          (if of_char b = (237::nat) then 159 else 191) c
             then 65533 # utf16_units bs
             else (case cs of
                     [] \<Rightarrow> [65533]
                   | d # ds \<Rightarrow>
                       if in_range 128 191 d
                       then ((of_char b - 224) * 4096 + (of_char c - 128) * 64 + (of_char d - 128))
                            # utf16_units ds
                       else 65533 # utf16_units cs))
      else if in_range 240 244 b then
        (case bs of
           [] \<Rightarrow> [65533]
         | c # cs \<Rightarrow>
             if \<not> in_range (if of_char b = (240::nat) then 144 else 128)
                          (if of_char b = (244::nat) then 143 else 191) c
             then 65533 # utf16_units bs
             else (case cs of
                     [] \<Rightarrow> [65533]
                   | d # ds \<Rightarrow>
                       if \<not> in_range 128 191 d then 65533 # utf16_units cs
                       else (case ds of
                               [] \<Rightarrow> [65533]
                             | e # es \<Rightarrow>
                                 if in_range 128 191 e
                                 then (let cp = (of_char b - 240) * 262144 + (of_char c - 128) * 4096
                                                + (of_char d - 128) * 64 + (of_char e - 128)
                                       in (55296 + (cp - 65536) div 1024)
                                          # (56320 + (cp - 65536) mod 1024)
                                          # utf16_units es)
                                 else 65533 # utf16_units ds)))
      else 65533 # utf16_units bs)"

definition unit_bytes :: "string \<Rightarrow> string" where
  "unit_bytes s = map char_of (utf16_units s)"

definition unbase64 :: "char \<Rightarrow> nat option" where
  "unbase64 c =
     (let n = (of_char c :: nat) in
      if 65 \<le> n \<and> n \<le> 90 then Some (n - 65)
      else if 97 \<le> n \<and> n \<le> 122 then Some (n - 71)
      else if 48 \<le> n \<and> n \<le> 57 then Some (n + 4)
      else if c = CHR ''+'' \<or> c = CHR ''-'' then Some 62
      else if c = CHR ''/'' \<or> c = CHR ''_'' then Some 63
      else None)"

fun toBase64 :: "string \<Rightarrow> string" where
  "toBase64 [] = []"
| "toBase64 [a] =
     (let x = (of_char a :: nat) in
      [b64_char (x div 4), b64_char ((x mod 4) * 16), CHR ''='', CHR ''=''])"
| "toBase64 [a, b] =
     (let x = (of_char a :: nat); y = (of_char b :: nat) in
      [b64_char (x div 4), b64_char ((x mod 4) * 16 + y div 16),
       b64_char ((y mod 16) * 4), CHR ''=''])"
| "toBase64 (a # b # c # rest) =
     (let x = (of_char a :: nat); y = (of_char b :: nat); z = (of_char c :: nat) in
      [b64_char (x div 4), b64_char ((x mod 4) * 16 + y div 16),
       b64_char ((y mod 16) * 4 + z div 64), b64_char (z mod 64)] @ toBase64 rest)"

definition sextets_bytes :: "string \<Rightarrow> nat list" where
  "sextets_bytes s = List.map_filter unbase64 (takeWhile (\<lambda>c. c \<noteq> CHR ''='') s)"

definition sextets :: "string \<Rightarrow> nat list" where
  "sextets s = sextets_bytes (unit_bytes s)"

fun dec_groups :: "nat list \<Rightarrow> string" where
  "dec_groups (a # b # c # d # rest) =
     [char_of (a * 4 + b div 16), char_of ((b mod 16) * 16 + c div 4),
      char_of ((c mod 4) * 64 + d)] @ dec_groups rest"
| "dec_groups [a, b, c] = [char_of (a * 4 + b div 16), char_of ((b mod 16) * 16 + c div 4)]"
| "dec_groups [a, b] = [char_of (a * 4 + b div 16)]"
| "dec_groups _ = []"

definition fromBase64 :: "string \<Rightarrow> string" where
  "fromBase64 s = dec_groups (sextets s)"

text \<open>
  \<open>s.replace(/x/g, 'y')\<close> for a single character is \<open>replace_all\<close>, and
  \<open>s.replace(/=+$/, '')\<close> is \<open>strip_trailing_eq\<close>: the trailing run of \<open>=\<close> is removed.
\<close>

definition replace_all :: "char \<Rightarrow> char \<Rightarrow> string \<Rightarrow> string" where
  "replace_all x y s = map (\<lambda>c. if c = x then y else c) s"

definition strip_trailing_eq :: "string \<Rightarrow> string" where
  "strip_trailing_eq s = rev (dropWhile (\<lambda>c. c = CHR ''='') (rev s))"

text \<open>
  \<open>buf.toString('utf-8')\<close> on the byte representation: a well-formed sequence is
  copied; an ill-formed one gives U+FFFD (the bytes EF BF BD), one for each maximal
  ill-formed prefix, and decoding resumes at the byte that broke the sequence.
\<close>

definition replacement :: string where
  "replacement = [char_of (239::nat), char_of (191::nat), char_of (189::nat)]"

fun utf8_toString :: "string \<Rightarrow> string" where
  "utf8_toString [] = []"
| "utf8_toString (b # bs) =
     (if in_range 0 127 b then b # utf8_toString bs
      else if in_range 194 223 b then
        (case bs of
           [] \<Rightarrow> replacement
         | c # cs \<Rightarrow>
             if in_range 128 191 c then b # c # utf8_toString cs
             else replacement @ utf8_toString bs)
      else if in_range 224 239 b then
        (case bs of
           [] \<Rightarrow> replacement
         | c # cs \<Rightarrow>
             if \<not> in_range (if of_char b = (224::nat) then 160 else 128)
                          (if of_char b = (237::nat) then 159 else 191) c
             then replacement @ utf8_toString bs
             else (case cs of
                     [] \<Rightarrow> replacement
                   | d # ds \<Rightarrow>
                       if in_range 128 191 d then b # c # d # utf8_toString ds
                       else replacement @ utf8_toString cs))
      else if in_range 240 244 b then
        (case bs of
           [] \<Rightarrow> replacement
         | c # cs \<Rightarrow>
             if \<not> in_range (if of_char b = (240::nat) then 144 else 128)
                          (if of_char b = (244::nat) then 143 else 191) c
             then replacement @ utf8_toString bs
             else (case cs of
                     [] \<Rightarrow> replacement
                   | d # ds \<Rightarrow>
                       if \<not> in_range 128 191 d then replacement @ utf8_toString cs
                       else (case ds of
                               [] \<Rightarrow> replacement
                             | e # es \<Rightarrow>
                                 if in_range 128 191 e then b # c # d # e # utf8_toString es
                                 else replacement @ utf8_toString ds)))
      else replacement @ utf8_toString bs)"

text \<open>The two helpers of the source.\<close>

definition encodeBase64Url :: "string \<Rightarrow> string" where
  "encodeBase64Url data =
     strip_trailing_eq (replace_all CHR ''/'' CHR ''_'' (replace_all CHR ''+'' CHR ''-'' (toBase64 data)))"

definition decodeBase64Url :: "string \<Rightarrow> string" where
  "decodeBase64Url data =
     utf8_toString (fromBase64 (replace_all CHR ''_'' CHR ''/'' (replace_all CHR ''-'' CHR ''+'' data)))"


text \<open>
  The sextets of the encoding and the number of padding characters, used to state the
  shape of \<open>toBase64\<close>'s result.
\<close>

fun enc_sx :: "string \<Rightarrow> nat list" where
  "enc_sx [] = []"
| "enc_sx [a] = (let x = (of_char a :: nat) in [x div 4, (x mod 4) * 16])"
| "enc_sx [a, b] =
     (let x = (of_char a :: nat); y = (of_char b :: nat) in
      [x div 4, (x mod 4) * 16 + y div 16, (y mod 16) * 4])"
| "enc_sx (a # b # c # rest) =
     (let x = (of_char a :: nat); y = (of_char b :: nat); z = (of_char c :: nat) in
      [x div 4, (x mod 4) * 16 + y div 16, (y mod 16) * 4 + z div 64, z mod 64] @ enc_sx rest)"

fun npad :: "string \<Rightarrow> nat" where
  "npad [] = 0"
| "npad [a] = 2"
| "npad [a, b] = 1"
| "npad (a # b # c # rest) = npad rest"

text \<open>The characters of base64 text: the standard alphabet and the padding character.\<close>

definition is_base64_char :: "char \<Rightarrow> bool" where
  "is_base64_char c =
     (let n = (of_char c :: nat) in
      (65 \<le> n \<and> n \<le> 90) \<or> (97 \<le> n \<and> n \<le> 122) \<or> (48 \<le> n \<and> n \<le> 57)
      \<or> c = CHR ''+'' \<or> c = CHR ''/'' \<or> c = CHR ''='')"

subsection \<open>Strings, numbers and lists as the source uses them\<close>

text \<open>
  \<open>String.prototype.includes\<close> and \<open>startsWith\<close>, \<open>Array.prototype.join\<close> and
  \<open>push\<close>, and the decimal text a template literal gives for a non-negative integer
  (\<open>Date.now()\<close>, \<open>ids.length\<close>). On the UTF-8 representation a search for an ASCII
  string finds the same occurrences as on the JavaScript string.
\<close>

definition includes_str :: "string \<Rightarrow> string \<Rightarrow> bool" where
  "includes_str s needle = sublist needle s"

definition startsWith :: "string \<Rightarrow> string \<Rightarrow> bool" where
  "startsWith s p = prefix p s"

fun join :: "string \<Rightarrow> string list \<Rightarrow> string" where
  "join sep [] = []"
| "join sep [x] = x"
| "join sep (x # y # ys) = x @ sep @ join sep (y # ys)"

definition CRLF :: string where
  "CRLF = [CHR 0x0D, CHR 0x0A]"

definition digit_char :: "nat \<Rightarrow> char" where
  "digit_char d = char_of (48 + d)"

function show_nat :: "nat \<Rightarrow> string" where
  "show_nat n = (if n < 10 then [digit_char n] else show_nat (n div 10) @ [digit_char (n mod 10)])"
  by pat_completeness auto
termination
  by (relation "measure id") auto

declare show_nat.simps [simp del]

definition push :: "'a list \<Rightarrow> 'a \<Rightarrow> 'a list" where
  "push xs x = xs @ [x]"

subsection \<open>The MIME envelope encoder\<close>

text \<open>
  The options of \<open>buildRawEmail\<close>. An optional field is an \<open>option\<close>; the tests
  \<open>if (options.from)\<close> and \<open>if (options.cc?.length)\<close> hold for a non-empty string and
  a non-empty array (\<open>truthy_str\<close>, \<open>truthy_len\<close>), and \<open>x || []\<close> is \<open>or_empty\<close>.
\<close>

record Attachment =
  filename :: string
  mimeType :: string
  content :: string

record email_options =
  o_to :: string
  o_subject :: string
  o_body :: string
  o_htmlBody :: "string option"
  o_cc :: "string list option"
  o_bcc :: "string list option"
  o_from :: "string option"
  o_threadId :: "string option"
  o_inReplyTo :: "string option"
  o_references :: "string option"
  o_attachments :: "Attachment list option"

text \<open>
  The encoder pushes its lines one after the other onto \<open>lines\<close>. The header block
  (source lines 112 to 119) is \<open>push_headers\<close>; the four pushes of a base64 text part,
  which the source repeats for each text part, are \<open>push_text_part\<close>; the body of the
  attachment loop is \<open>push_attachment\<close>; the alternative group with its declaration
  is \<open>push_alternative\<close>.
\<close>

definition push_opt_header :: "string list \<Rightarrow> string \<Rightarrow> string option \<Rightarrow> string list" where
  "push_opt_header lines name v =
     (case v of
        None \<Rightarrow> lines
      | Some s \<Rightarrow> if s \<noteq> [] then push lines (name @ '': '' @ s) else lines)"

definition push_list_header :: "string list \<Rightarrow> string \<Rightarrow> string list option \<Rightarrow> string list" where
  "push_list_header lines name v =
     (case v of
        None \<Rightarrow> lines
      | Some xs \<Rightarrow> if length xs \<noteq> 0 then push lines (name @ '': '' @ join '', '' xs) else lines)"

definition push_headers :: "string list \<Rightarrow> email_options \<Rightarrow> string list" where
  "push_headers lines0 options =
     (let lines1 = push lines0 (''To: '' @ o_to options);
          lines2 = push_opt_header lines1 ''From'' (o_from options);
          lines3 = push_list_header lines2 ''Cc'' (o_cc options);
          lines4 = push_list_header lines3 ''Bcc'' (o_bcc options);
          lines5 = push lines4 (''Subject: =?UTF-8?B?'' @ toBase64 (o_subject options) @ ''?='');
          lines6 = push_opt_header lines5 ''In-Reply-To'' (o_inReplyTo options);
          lines7 = push_opt_header lines6 ''References'' (o_references options)
      in push lines7 ''MIME-Version: 1.0'')"

definition push_text_part :: "string list \<Rightarrow> string \<Rightarrow> string \<Rightarrow> string list" where
  \<open>push_text_part lines0 subtype text =
     (let lines1 = push lines0 (''Content-Type: text/'' @ subtype @ ''; charset="UTF-8"'');
          lines2 = push lines1 ''Content-Transfer-Encoding: base64'';
          lines3 = push lines2 ''''
      in push lines3 (toBase64 text))\<close>

definition push_attachment :: "string \<Rightarrow> string list \<Rightarrow> Attachment \<Rightarrow> string list" where
  \<open>push_attachment boundary lines0 att =
     (let lines1 = push lines0 (''--'' @ boundary);
          lines2 = push lines1 (''Content-Type: '' @ mimeType att @ ''; name="'' @ filename att @ ''"'');
          lines3 = push lines2 ''Content-Transfer-Encoding: base64'';
          lines4 = push lines3 (''Content-Disposition: attachment; filename="'' @ filename att @ ''"'');
          lines5 = push lines4 ''''
      in push lines5 (content att))\<close>

definition truthy_str :: "string option \<Rightarrow> bool" where
  "truthy_str v = (case v of None \<Rightarrow> False | Some s \<Rightarrow> s \<noteq> [])"

definition truthy_len :: "'a list option \<Rightarrow> bool" where
  "truthy_len v = (case v of None \<Rightarrow> False | Some xs \<Rightarrow> length xs \<noteq> 0)"

definition or_empty :: "'a list option \<Rightarrow> 'a list" where
  "or_empty v = (case v of None \<Rightarrow> [] | Some xs \<Rightarrow> xs)"

text \<open>
  The two boundary tokens. \<open>Date.now()\<close> is read twice, so the encoder takes two clock
  values, in milliseconds since the epoch.
\<close>

definition boundary_token :: "nat \<Rightarrow> string" where
  "boundary_token now = ''boundary_'' @ show_nat now"

definition altBoundary_token :: "nat \<Rightarrow> string" where
  "altBoundary_token now = ''alt_boundary_'' @ show_nat now"

definition push_alternative :: "string list \<Rightarrow> string \<Rightarrow> string \<Rightarrow> string \<Rightarrow> string list" where
  \<open>push_alternative lines0 bnd text html =
     (let lines1 = push lines0 (''Content-Type: multipart/alternative; boundary="'' @ bnd @ ''"'');
          lines2 = push lines1 '''';
          lines3 = push lines2 (''--'' @ bnd);
          lines4 = push_text_part lines3 ''plain'' text;
          lines5 = push lines4 (''--'' @ bnd);
          lines6 = push_text_part lines5 ''html'' html
      in push lines6 (''--'' @ bnd @ ''--''))\<close>

definition buildRawEmail_lines :: "nat \<Rightarrow> nat \<Rightarrow> email_options \<Rightarrow> string list" where
  \<open>buildRawEmail_lines now1 now2 options =
     (let boundary = boundary_token now1;
          altBoundary = altBoundary_token now2;
          lines = push_headers [] options
      in if truthy_len (o_attachments options) then
           (let lines1 = push lines (''Content-Type: multipart/mixed; boundary="'' @ boundary @ ''"'');
                lines2 = push lines1 '''';
                lines3 = push lines2 (''--'' @ boundary);
                lines4 = (if truthy_str (o_htmlBody options)
                          then push_alternative lines3 altBoundary (o_body options)
                                 (or_empty (o_htmlBody options))
                          else push_text_part lines3 ''plain'' (o_body options));
                lines5 = foldl (push_attachment boundary) lines4 (or_empty (o_attachments options))
            in push lines5 (''--'' @ boundary @ ''--''))
         else if truthy_str (o_htmlBody options) then
           push_alternative lines boundary (o_body options) (or_empty (o_htmlBody options))
         else push_text_part lines ''plain'' (o_body options))\<close>

definition buildRawEmail :: "nat \<Rightarrow> nat \<Rightarrow> email_options \<Rightarrow> string" where
  "buildRawEmail now1 now2 options = encodeBase64Url (join CRLF (buildRawEmail_lines now1 now2 options))"

text \<open>The webhook's own encoder (\<open>route.ts\<close>): always \<open>multipart/mixed\<close>, one boundary.\<close>

record route_options =
  r_to :: string
  r_subject :: string
  r_body :: string
  r_attachments :: "Attachment list"

definition buildRawEmail_route_lines :: "nat \<Rightarrow> route_options \<Rightarrow> string list" where
  \<open>buildRawEmail_route_lines now options =
     (let boundary = boundary_token now;
          lines1 = push [] (''To: '' @ r_to options);
          lines2 = push lines1 (''Subject: =?UTF-8?B?'' @ toBase64 (r_subject options) @ ''?='');
          lines3 = push lines2 ''MIME-Version: 1.0'';
          lines4 = push lines3 (''Content-Type: multipart/mixed; boundary="'' @ boundary @ ''"'');
          lines5 = push lines4 '''';
          lines6 = push lines5 (''--'' @ boundary);
          lines7 = push_text_part lines6 ''plain'' (r_body options);
          lines8 = foldl (push_attachment boundary) lines7 (r_attachments options)
      in push lines8 (''--'' @ boundary @ ''--''))\<close>

definition buildRawEmail_route :: "nat \<Rightarrow> route_options \<Rightarrow> string" where
  "buildRawEmail_route now options = encodeBase64Url (join CRLF (buildRawEmail_route_lines now options))"

text \<open>
  The layout of a message in the specification's words, to compare with what the
  encoder pushes line by line: the header block, a base64 text part, the alternative
  group (plain part first, HTML part second), an attachment part, and a multipart body
  whose parts are each introduced by the delimiter line and closed by the final
  delimiter.
\<close>

definition opt_header :: "string \<Rightarrow> string option \<Rightarrow> string list" where
  "opt_header name v = (case v of None \<Rightarrow> [] | Some s \<Rightarrow> if s = [] then [] else [name @ '': '' @ s])"

definition list_header :: "string \<Rightarrow> string list option \<Rightarrow> string list" where
  "list_header name v =
     (case v of None \<Rightarrow> [] | Some xs \<Rightarrow> if xs = [] then [] else [name @ '': '' @ join '', '' xs])"

definition header_lines :: "email_options \<Rightarrow> string list" where
  "header_lines options =
     [''To: '' @ o_to options]
     @ opt_header ''From'' (o_from options)
     @ list_header ''Cc'' (o_cc options)
     @ list_header ''Bcc'' (o_bcc options)
     @ [''Subject: =?UTF-8?B?'' @ toBase64 (o_subject options) @ ''?='']
     @ opt_header ''In-Reply-To'' (o_inReplyTo options)
     @ opt_header ''References'' (o_references options)
     @ [''MIME-Version: 1.0'']"

definition route_header_lines :: "route_options \<Rightarrow> string list" where
  "route_header_lines options =
     [''To: '' @ r_to options,
      ''Subject: =?UTF-8?B?'' @ toBase64 (r_subject options) @ ''?='',
      ''MIME-Version: 1.0'']"

definition text_part :: "string \<Rightarrow> string \<Rightarrow> string list" where
  \<open>text_part subtype text =
     [''Content-Type: text/'' @ subtype @ ''; charset="UTF-8"'',
      ''Content-Transfer-Encoding: base64'',
      '''',
      toBase64 text]\<close>

definition alternative_group :: "string \<Rightarrow> string \<Rightarrow> string \<Rightarrow> string list" where
  \<open>alternative_group bnd text html =
     [''--'' @ bnd,
      ''Content-Type: text/plain; charset="UTF-8"'',
      ''Content-Transfer-Encoding: base64'',
      '''',
      toBase64 text,
      ''--'' @ bnd,
      ''Content-Type: text/html; charset="UTF-8"'',
      ''Content-Transfer-Encoding: base64'',
      '''',
      toBase64 html,
      ''--'' @ bnd @ ''--'']\<close>

definition alternative_header :: "string \<Rightarrow> string list" where
  \<open>alternative_header bnd = [''Content-Type: multipart/alternative; boundary="'' @ bnd @ ''"'', '''']\<close>

definition mixed_header :: "string \<Rightarrow> string list" where
  \<open>mixed_header bnd = [''Content-Type: multipart/mixed; boundary="'' @ bnd @ ''"'', '''']\<close>

definition attachment_part :: "Attachment \<Rightarrow> string list" where
  \<open>attachment_part att =
     [''Content-Type: '' @ mimeType att @ ''; name="'' @ filename att @ ''"'',
      ''Content-Transfer-Encoding: base64'',
      ''Content-Disposition: attachment; filename="'' @ filename att @ ''"'',
      '''',
      content att]\<close>

definition body_part :: "string \<Rightarrow> email_options \<Rightarrow> string list" where
  "body_part altBoundary options =
     (case o_htmlBody options of
        None \<Rightarrow> text_part ''plain'' (o_body options)
      | Some html \<Rightarrow>
          if html = [] then text_part ''plain'' (o_body options)
          else alternative_header altBoundary @ alternative_group altBoundary (o_body options) html)"

definition multipart_body :: "string \<Rightarrow> string list list \<Rightarrow> string list" where
  "multipart_body bnd parts = concat (map (\<lambda>p. (''--'' @ bnd) # p) parts) @ [''--'' @ bnd @ ''--'']"

text \<open>
  The lines that carry content, and the boundary tokens that reach the output. The
  claim about boundaries: the emitted tokens are pairwise different and none occurs
  inside a content line.
\<close>

definition content_lines :: "email_options \<Rightarrow> string list" where
  "content_lines options =
     toBase64 (o_body options)
     # (if truthy_str (o_htmlBody options) then [toBase64 (or_empty (o_htmlBody options))] else [])
     @ map content (or_empty (o_attachments options))"

definition emitted_boundaries :: "nat \<Rightarrow> nat \<Rightarrow> email_options \<Rightarrow> string list" where
  "emitted_boundaries now1 now2 options =
     (if truthy_len (o_attachments options)
      then boundary_token now1
           # (if truthy_str (o_htmlBody options) then [altBoundary_token now2] else [])
      else if truthy_str (o_htmlBody options) then [boundary_token now1] else [])"

definition boundaries_content_free :: "string list \<Rightarrow> string list \<Rightarrow> bool" where
  "boundaries_content_free tokens lines =
     (distinct tokens \<and> list_all (\<lambda>b. list_all (\<lambda>l. \<not> includes_str l b) lines) tokens)"

definition route_content_lines :: "route_options \<Rightarrow> string list" where
  "route_content_lines options = toBase64 (r_body options) # map content (r_attachments options)"

definition base64_text :: "string \<Rightarrow> bool" where
  "base64_text s = list_all is_base64_char s"

definition underscore_free :: "string \<Rightarrow> bool" where
  "underscore_free s = (CHR ''_'' \<notin> set s)"

text \<open>
  The produced message. The encoder's result is base64url text; decoding it gives the
  raw message, and splitting that at every CRLF gives its lines (JavaScript's
  \<open>split('\r\n')\<close>). \<open>lines_text\<close> is the text in which every line but the last is
  followed by CRLF. The parts of a multipart message are introduced by its delimiter
  lines, \<open>--\<close> followed by the boundary, and the last part ends at the closing
  delimiter, \<open>--\<close> followed by the boundary and \<open>--\<close>; so \<open>part_count\<close> counts the
  delimiter lines that come before the first closing delimiter.
\<close>

definition lines_text :: "string list \<Rightarrow> string" where
  "lines_text ls = concat (map (\<lambda>l. l @ [CHR 0x0D, CHR 0x0A]) (butlast ls)) @ last ls"

fun split_crlf :: "string \<Rightarrow> string list" where
  "split_crlf [] = [[]]"
| "split_crlf [c] = [[c]]"
| "split_crlf (c # d # cs) =
     (if c = CHR 0x0D \<and> d = CHR 0x0A then [] # split_crlf cs
      else (case split_crlf (d # cs) of
              [] \<Rightarrow> [[c]]
            | l # ls \<Rightarrow> (c # l) # ls))"

definition message_lines :: "string \<Rightarrow> string list" where
  "message_lines raw = split_crlf (fromBase64 raw)"

definition part_count :: "string \<Rightarrow> string \<Rightarrow> nat" where
  "part_count bnd raw =
     length (filter (\<lambda>l. l = ''--'' @ bnd)
               (takeWhile (\<lambda>l. l \<noteq> ''--'' @ bnd @ ''--'') (message_lines raw)))"

text \<open>
  Fields that stay on their line: a field without carriage return cannot end its line.
  A clean attachment has such a name, type and content, and its content does not begin
  with \<open>--\<close>, as every delimiter does; base64 text is such a content.
\<close>

definition single_line :: "string \<Rightarrow> bool" where
  "single_line s = (CHR 0x0D \<notin> set s)"

definition clean_headers :: "email_options \<Rightarrow> bool" where
  "clean_headers options =
     (single_line (o_to options)
      \<and> list_all single_line (or_empty (o_cc options))
      \<and> list_all single_line (or_empty (o_bcc options))
      \<and> (case o_from options of None \<Rightarrow> True | Some s \<Rightarrow> single_line s)
      \<and> (case o_inReplyTo options of None \<Rightarrow> True | Some s \<Rightarrow> single_line s)
      \<and> (case o_references options of None \<Rightarrow> True | Some s \<Rightarrow> single_line s))"

definition clean_attachment :: "Attachment \<Rightarrow> bool" where
  "clean_attachment a =
     (single_line (mimeType a) \<and> single_line (filename a) \<and> single_line (content a)
      \<and> take 2 (content a) \<noteq> ''--'')"

subsection \<open>The message parser\<close>

text \<open>
  \<open>toLowerCase\<close> on the ASCII letters. The header names the source looks up
  (\<open>From\<close>, \<open>To\<close>, \<open>Cc\<close>, \<open>Subject\<close>, \<open>Date\<close>, \<open>Message-ID\<close>, \<open>References\<close>)
  contain no letter that a non-ASCII character lowers to, so on a comparison with one
  of them the ASCII mapping decides as JavaScript's does.
\<close>

definition toLowerCase :: "string \<Rightarrow> string" where
  "toLowerCase s =
     map (\<lambda>c. if 65 \<le> (of_char c :: nat) \<and> (of_char c :: nat) \<le> 90
              then char_of ((of_char c :: nat) + 32) else c) s"

record header =
  h_name :: "string option"
  h_value :: "string option"

definition getHeader :: "header list \<Rightarrow> string \<Rightarrow> string" where
  "getHeader headers name =
     (case find (\<lambda>h. map_option toLowerCase (h_name h) = Some (toLowerCase name)) headers of
        None \<Rightarrow> []
      | Some h \<Rightarrow> or_empty (h_value h))"

text \<open>
  The provider's parsed message, with the fields \<open>parseMessage\<close> reads. A field that
  may be absent is an \<open>option\<close>. \<open>parseMessage\<close> has no \<open>throw\<close> and reads every
  optional field through \<open>?.\<close> or a test, so it is a total function.
\<close>

record part_body =
  data :: "string option"

record message_part =
  p_mimeType :: "string option"
  p_body :: "part_body option"

record payload =
  pl_headers :: "header list option"
  pl_parts :: "message_part list option"
  pl_body :: "part_body option"

record gmail_message =
  m_id :: string
  m_threadId :: string
  m_snippet :: "string option"
  m_labelIds :: "string list option"
  m_payload :: "payload option"

record ParsedMessage =
  pm_id :: string
  pm_threadId :: string
  pm_from :: string
  pm_to :: string
  pm_subject :: string
  pm_date :: string
  pm_snippet :: string
  pm_body :: string
  pm_labels :: "string list"

definition body_data :: "part_body option \<Rightarrow> string option" where
  "body_data b = (case b of None \<Rightarrow> None | Some pb \<Rightarrow> data pb)"

definition or_else :: "'a option \<Rightarrow> 'a option \<Rightarrow> 'a option" where
  "or_else a b = (case a of Some x \<Rightarrow> Some x | None \<Rightarrow> b)"

definition msg_headers :: "payload option \<Rightarrow> header list" where
  "msg_headers p = (case p of None \<Rightarrow> [] | Some pl \<Rightarrow> or_empty (pl_headers pl))"

definition parseMessage_body :: "payload option \<Rightarrow> string" where
  "parseMessage_body pl =
     (let body = [] in
      case pl of
        None \<Rightarrow> body
      | Some payload \<Rightarrow>
          (case pl_parts payload of
             Some parts \<Rightarrow>
               (let textPart = find (\<lambda>p. p_mimeType p = Some ''text/plain'') parts;
                    htmlPart = find (\<lambda>p. p_mimeType p = Some ''text/html'') parts;
                    part = or_else textPart htmlPart
                in case part of
                     None \<Rightarrow> body
                   | Some p \<Rightarrow>
                       (let partBody = p_body p;
                            d = body_data partBody
                        in if truthy_str d then decodeBase64Url (or_empty d) else body))
           | None \<Rightarrow>
               (let payloadBody = pl_body payload;
                    d = body_data payloadBody
                in if truthy_str d then decodeBase64Url (or_empty d) else body)))"

definition parseMessage :: "gmail_message \<Rightarrow> ParsedMessage" where
  "parseMessage message =
     (let pl = m_payload message;
          msgHeaders = msg_headers pl;
          body = parseMessage_body pl
      in \<lparr>pm_id = m_id message,
          pm_threadId = m_threadId message,
          pm_from = getHeader msgHeaders ''From'',
          pm_to = getHeader msgHeaders ''To'',
          pm_subject = getHeader msgHeaders ''Subject'',
          pm_date = getHeader msgHeaders ''Date'',
          pm_snippet = or_empty (m_snippet message),
          pm_body = body,
          pm_labels = or_empty (m_labelIds message)\<rparr>)"

text \<open>
  The text a body carries, in the specification's words: the base64url data decoded, and
  the empty string when there is no data.
\<close>

definition data_text :: "string option \<Rightarrow> string" where
  "data_text d = (case d of None \<Rightarrow> [] | Some s \<Rightarrow> decodeBase64Url s)"

definition part_text :: "message_part \<Rightarrow> string" where
  "part_text p = data_text (body_data (p_body p))"

definition no_data :: "part_body option \<Rightarrow> bool" where
  "no_data b = (body_data b = None \<or> body_data b = Some [])"

text \<open>
  Body extraction in the specification's words. A payload has sub-parts when its
  \<open>parts\<close> array holds at least one part. With sub-parts the body is the text of the
  first \<open>text/plain\<close> part, else of the first \<open>text/html\<close> part, else empty; without
  sub-parts it is the text of the payload's own body.
\<close>

definition has_sub_parts :: "payload \<Rightarrow> bool" where
  "has_sub_parts pl = (case pl_parts pl of None \<Rightarrow> False | Some ps \<Rightarrow> ps \<noteq> [])"

definition spec_body :: "payload \<Rightarrow> string" where
  "spec_body pl =
     (if has_sub_parts pl then
        (case find (\<lambda>p. p_mimeType p = Some ''text/plain'') (or_empty (pl_parts pl)) of
           Some p \<Rightarrow> part_text p
         | None \<Rightarrow>
             (case find (\<lambda>p. p_mimeType p = Some ''text/html'') (or_empty (pl_parts pl)) of
                Some p \<Rightarrow> part_text p
              | None \<Rightarrow> []))
      else data_text (body_data (pl_body pl)))"

subsection \<open>Filters\<close>

text \<open>
  The arguments of \<open>create_filter\<close> and the criteria and action it sends. The handler
  assigns to \<open>action\<close> step by step; \<open>create_filter_action\<close> follows the assignments
  in the order of the source (lines 835 to 850).
\<close>

record filter_args =
  f_from :: "string option"
  f_to :: "string option"
  f_subject :: "string option"
  f_query :: "string option"
  f_addLabelIds :: "string list option"
  f_removeLabelIds :: "string list option"
  f_forward :: "string option"
  f_star :: "bool option"
  f_markImportant :: "bool option"
  f_markRead :: "bool option"
  f_archive :: "bool option"
  f_trash :: "bool option"

record filter_criteria =
  c_from :: "string option"
  c_to :: "string option"
  c_subject :: "string option"
  c_query :: "string option"

record filter_action =
  a_addLabelIds :: "string list option"
  a_removeLabelIds :: "string list option"
  a_forward :: "string option"

definition truthy_bool :: "bool option \<Rightarrow> bool" where
  "truthy_bool v = (case v of None \<Rightarrow> False | Some b \<Rightarrow> b)"

definition create_filter_criteria :: "filter_args \<Rightarrow> filter_criteria" where
  "create_filter_criteria args =
     (let criteria0 = \<lparr>c_from = None, c_to = None, c_subject = None, c_query = None\<rparr>;
          criteria1 = (if truthy_str (f_from args) then criteria0\<lparr>c_from := f_from args\<rparr> else criteria0);
          criteria2 = (if truthy_str (f_to args) then criteria1\<lparr>c_to := f_to args\<rparr> else criteria1);
          criteria3 = (if truthy_str (f_subject args) then criteria2\<lparr>c_subject := f_subject args\<rparr>
                       else criteria2)
      in if truthy_str (f_query args) then criteria3\<lparr>c_query := f_query args\<rparr> else criteria3)"

definition create_filter_action :: "filter_args \<Rightarrow> filter_action" where
  "create_filter_action args =
     (let action0 = \<lparr>a_addLabelIds = None, a_removeLabelIds = None, a_forward = None\<rparr>;
          action1 = (case f_addLabelIds args of
                       Some xs \<Rightarrow> action0\<lparr>a_addLabelIds := Some xs\<rparr>
                     | None \<Rightarrow> action0);
          action2 = (case f_removeLabelIds args of
                       Some xs \<Rightarrow> action1\<lparr>a_removeLabelIds := Some xs\<rparr>
                     | None \<Rightarrow> action1);
          action3 = (if truthy_str (f_forward args) then action2\<lparr>a_forward := f_forward args\<rparr>
                     else action2);
          removeIds0 = or_empty (f_removeLabelIds args);
          removeIds1 = (if truthy_bool (f_markRead args) then push removeIds0 ''UNREAD'' else removeIds0);
          removeIds2 = (if truthy_bool (f_archive args) then push removeIds1 ''INBOX'' else removeIds1);
          action4 = (if truthy_bool (f_trash args)
                     then action3\<lparr>a_addLabelIds := Some (or_empty (f_addLabelIds args) @ [''TRASH''])\<rparr>
                     else action3);
          action5 = (if length removeIds2 \<noteq> 0 then action4\<lparr>a_removeLabelIds := Some removeIds2\<rparr>
                     else action4);
          addIds0 = or_empty (f_addLabelIds args);
          addIds1 = (if truthy_bool (f_star args) then push addIds0 ''STARRED'' else addIds0);
          addIds2 = (if truthy_bool (f_markImportant args) then push addIds1 ''IMPORTANT'' else addIds1)
      in if length addIds2 \<noteq> 0 then action5\<lparr>a_addLabelIds := Some addIds2\<rparr> else action5)"

subsection \<open>Request handlers\<close>

text \<open>
  A thrown \<open>Error\<close> is a value carrying its message. The provider client is a record of
  its methods, each returning an error or the response data; \<open>getGmailClient\<close>, which
  throws when the credentials are missing, is the handler's first argument as an error or
  a client. A handler returns the provider calls it issued, in order, and its outcome.
  The JSON text of a result is kept as the value that is serialised (\<open>Json_message\<close>,
  \<open>Json_messages\<close>).
  \<open>maxResults\<close> is taken as an integer.
\<close>

datatype error = Error string

datatype api_call =
    MessagesList string int
  | MessagesGet string string "string list"
  | MessagesSend string "string option"
  | BatchModify "string list" "string list option" "string list option"
  | BatchDelete "string list"
  | FiltersCreate filter_criteria filter_action
  | ThreadsGet string string

record message_ref =
  ref_id :: string

record gmail_client =
  messages_list :: "string \<Rightarrow> int \<Rightarrow> error + message_ref list option"
  messages_get :: "string \<Rightarrow> string \<Rightarrow> string list \<Rightarrow> error + gmail_message"
  messages_send :: "string \<Rightarrow> string option \<Rightarrow> error + string option"
  messages_batchModify :: "string list \<Rightarrow> string list option \<Rightarrow> string list option \<Rightarrow> error + unit"
  messages_batchDelete :: "string list \<Rightarrow> error + unit"
  filters_create :: "filter_criteria \<Rightarrow> filter_action \<Rightarrow> error + string option"
  threads_get :: "string \<Rightarrow> string \<Rightarrow> error + gmail_message list option"

datatype tool_result = Text string | Json_message ParsedMessage | Json_messages "ParsedMessage list"

type_synonym 'a handler_outcome = "api_call list \<times> (error + 'a)"

fun search_loop ::
  "gmail_client \<Rightarrow> message_ref list \<Rightarrow> ParsedMessage list \<Rightarrow> api_call list
     \<Rightarrow> (ParsedMessage list) handler_outcome" where
  "search_loop gmail [] results calls = (calls, Inr results)"
| "search_loop gmail (msg # msgs) results calls =
     (let metadataHeaders = [''From'', ''To'', ''Subject'', ''Date''];
          calls1 = push calls (MessagesGet (ref_id msg) ''metadata'' metadataHeaders)
      in case messages_get gmail (ref_id msg) ''metadata'' metadataHeaders of
           Inl e \<Rightarrow> (calls1, Inl e)
         | Inr d \<Rightarrow>
             (let pl = m_payload d;
                  msgHeaders = msg_headers pl
              in search_loop gmail msgs
                   (push results
                      \<lparr>pm_id = m_id d,
                       pm_threadId = m_threadId d,
                       pm_from = getHeader msgHeaders ''From'',
                       pm_to = getHeader msgHeaders ''To'',
                       pm_subject = getHeader msgHeaders ''Subject'',
                       pm_date = getHeader msgHeaders ''Date'',
                       pm_snippet = or_empty (m_snippet d),
                       pm_body = [],
                       pm_labels = or_empty (m_labelIds d)\<rparr>)
                   calls1))"

definition max_results_or :: "int option \<Rightarrow> int \<Rightarrow> int" where
  "max_results_or v dflt = (case v of None \<Rightarrow> dflt | Some n \<Rightarrow> if n \<noteq> 0 then n else dflt)"

definition search_emails ::
  "error + gmail_client \<Rightarrow> string \<Rightarrow> int option \<Rightarrow> tool_result handler_outcome" where
  "search_emails getGmailClient query maxResults =
     (case getGmailClient of
        Inl e \<Rightarrow> ([], Inl e)
      | Inr gmail \<Rightarrow>
          (let limit = min (max_results_or maxResults 10) 100;
               calls = [MessagesList query limit]
           in case messages_list gmail query limit of
                Inl e \<Rightarrow> (calls, Inl e)
              | Inr listed \<Rightarrow>
                  (let messages = or_empty listed
                   in if length messages = 0
                      then (calls, Inr (Text ''No emails found matching your query.''))
                      else (case search_loop gmail messages [] calls of
                              (calls', Inl e) \<Rightarrow> (calls', Inl e)
                            | (calls', Inr results) \<Rightarrow> (calls', Inr (Json_messages results))))))"

definition read_email :: "error + gmail_client \<Rightarrow> string \<Rightarrow> tool_result handler_outcome" where
  "read_email getGmailClient messageId =
     (case getGmailClient of
        Inl e \<Rightarrow> ([], Inl e)
      | Inr gmail \<Rightarrow>
          (let calls = [MessagesGet messageId ''full'' []]
           in case messages_get gmail messageId ''full'' [] of
                Inl e \<Rightarrow> (calls, Inl e)
              | Inr d \<Rightarrow> (calls, Inr (Json_message (parseMessage d)))))"

definition batch_modify_emails ::
  "error + gmail_client \<Rightarrow> string list \<Rightarrow> string list option \<Rightarrow> string list option
     \<Rightarrow> string handler_outcome" where
  "batch_modify_emails getGmailClient messageIds addLabels removeLabels =
     (case getGmailClient of
        Inl e \<Rightarrow> ([], Inl e)
      | Inr gmail \<Rightarrow>
          (let ids = take 50 messageIds;
               calls = [BatchModify ids addLabels removeLabels]
           in case messages_batchModify gmail ids addLabels removeLabels of
                Inl e \<Rightarrow> (calls, Inl e)
              | Inr _ \<Rightarrow> (calls, Inr (''Batch modified '' @ show_nat (length ids) @ '' emails.''))))"

definition batch_delete_emails ::
  "error + gmail_client \<Rightarrow> string list \<Rightarrow> string handler_outcome" where
  "batch_delete_emails getGmailClient messageIds =
     (case getGmailClient of
        Inl e \<Rightarrow> ([], Inl e)
      | Inr gmail \<Rightarrow>
          (let ids = take 50 messageIds;
               calls = [BatchDelete ids]
           in case messages_batchDelete gmail ids of
                Inl e \<Rightarrow> (calls, Inl e)
              | Inr _ \<Rightarrow> (calls, Inr (''Batch deleted '' @ show_nat (length ids) @ '' emails.''))))"

definition id_text :: "string option \<Rightarrow> string" where
  "id_text v = (case v of None \<Rightarrow> ''undefined'' | Some s \<Rightarrow> s)"

definition create_filter :: "error + gmail_client \<Rightarrow> filter_args \<Rightarrow> string handler_outcome" where
  "create_filter getGmailClient args =
     (case getGmailClient of
        Inl e \<Rightarrow> ([], Inl e)
      | Inr gmail \<Rightarrow>
          (let criteria = create_filter_criteria args;
               action = create_filter_action args;
               calls = [FiltersCreate criteria action]
           in case filters_create gmail criteria action of
                Inl e \<Rightarrow> (calls, Inl e)
              | Inr rid \<Rightarrow> (calls, Inr (''Filter created. ID: '' @ id_text rid))))"

definition get_thread :: "error + gmail_client \<Rightarrow> string \<Rightarrow> tool_result handler_outcome" where
  "get_thread getGmailClient threadId =
     (case getGmailClient of
        Inl e \<Rightarrow> ([], Inl e)
      | Inr gmail \<Rightarrow>
          (let calls = [ThreadsGet threadId ''full'']
           in case threads_get gmail threadId ''full'' of
                Inl e \<Rightarrow> (calls, Inl e)
              | Inr msgs \<Rightarrow> (calls, Inr (Json_messages (map parseMessage (or_empty msgs))))))"

definition reply_subject :: "string \<Rightarrow> string" where
  "reply_subject origSubject =
     (if startsWith origSubject ''Re:'' then origSubject else ''Re: '' @ origSubject)"

definition reply_options ::
  "header list \<Rightarrow> string \<Rightarrow> string option \<Rightarrow> bool option \<Rightarrow> email_options" where
  "reply_options msgHeaders body htmlBody replyAll =
     (let from = getHeader msgHeaders ''From'';
          to = getHeader msgHeaders ''To'';
          cc = getHeader msgHeaders ''Cc'';
          origSubject = getHeader msgHeaders ''Subject'';
          messageIdHeader = getHeader msgHeaders ''Message-ID'';
          references = getHeader msgHeaders ''References'';
          replyTo = from;
          replyCc = (if truthy_bool replyAll then Some (filter (\<lambda>s. s \<noteq> []) [to, cc]) else None);
          subject = reply_subject origSubject
      in \<lparr>o_to = replyTo,
          o_subject = subject,
          o_body = body,
          o_htmlBody = htmlBody,
          o_cc = replyCc,
          o_bcc = None,
          o_from = None,
          o_threadId = None,
          o_inReplyTo = Some messageIdHeader,
          o_references = Some (if references \<noteq> [] then references @ '' '' @ messageIdHeader
                               else messageIdHeader),
          o_attachments = None\<rparr>)"

definition reply_to_email ::
  "error + gmail_client \<Rightarrow> nat \<Rightarrow> nat \<Rightarrow> string \<Rightarrow> string \<Rightarrow> string option \<Rightarrow> bool option
     \<Rightarrow> string handler_outcome" where
  "reply_to_email getGmailClient now1 now2 messageId body htmlBody replyAll =
     (case getGmailClient of
        Inl e \<Rightarrow> ([], Inl e)
      | Inr gmail \<Rightarrow>
          (let metadataHeaders = [''From'', ''To'', ''Cc'', ''Subject'', ''Message-ID'', ''References''];
               calls = [MessagesGet messageId ''metadata'' metadataHeaders]
           in case messages_get gmail messageId ''metadata'' metadataHeaders of
                Inl e \<Rightarrow> (calls, Inl e)
              | Inr origData \<Rightarrow>
                  (let msgHeaders = msg_headers (m_payload origData);
                       raw = buildRawEmail now1 now2 (reply_options msgHeaders body htmlBody replyAll);
                       calls1 = push calls (MessagesSend raw (Some (m_threadId origData)))
                   in case messages_send gmail raw (Some (m_threadId origData)) of
                        Inl e \<Rightarrow> (calls1, Inl e)
                      | Inr rid \<Rightarrow> (calls1, Inr (''Reply sent. Message ID: '' @ id_text rid)))))"

subsection \<open>The send-email webhook\<close>

text \<open>
  The environment, the request and the response of \<open>POST\<close>. \<open>request.json()\<close> throws
  on a body that is not JSON (\<open>JsonThrows\<close> with the parser's message), may yield
  \<open>null\<close>, whose destructuring throws a TypeError, or yields another value, of which
  the handler reads the fields \<open>to\<close>, \<open>subject\<close>, \<open>body\<close> and \<open>attachments\<close> (all
  absent when the value is not an object). The source casts the fields to strings and
  checks none of the types but that of \<open>body\<close>, so a field is kept as what the JSON
  gives: absent, a string, or another value. Of a value that is not a string the code
  observes three things, and these stand for it here: whether it is truthy (\<open>!to\<close>),
  the text a template literal makes of it (\<open>`To: ${options.to}`\<close>), and the bytes
  \<open>Buffer.from\<close> makes of it; either conversion can throw (\<open>Buffer.from(123)\<close>
  throws a TypeError, and so does the conversion to text of an object whose
  \<open>toString\<close> is not a function).
\<close>

record webhook_env =
  WEBHOOK_SECRET :: "string option"
  GMAIL_CLIENT_ID :: "string option"
  GMAIL_CLIENT_SECRET :: "string option"
  GMAIL_REFRESH_TOKEN :: "string option"

record env_credentials =
  clientId :: string
  clientSecret :: string
  refreshToken :: string

datatype json_field = Absent | JsonString string | JsonOther bool "error + string" "error + string"

definition truthy_field :: "json_field \<Rightarrow> bool" where
  "truthy_field v = (case v of Absent \<Rightarrow> False | JsonString s \<Rightarrow> s \<noteq> [] | JsonOther t _ _ \<Rightarrow> t)"

definition template_text :: "json_field \<Rightarrow> error + string" where
  "template_text v =
     (case v of Absent \<Rightarrow> Inr ''undefined'' | JsonString s \<Rightarrow> Inr s | JsonOther _ text _ \<Rightarrow> text)"

definition buffer_bytes :: "json_field \<Rightarrow> error + string" where
  "buffer_bytes v =
     (case v of
        Absent \<Rightarrow> Inl (Error ''The first argument must be of type string or an instance of Buffer, ArrayBuffer, or Array or an Array-like Object. Received undefined'')
      | JsonString s \<Rightarrow> Inr s
      | JsonOther _ _ bytes \<Rightarrow> bytes)"

datatype body_value = BodyUndefined | BodyString string | BodyOther

text \<open>
  An element of the \<open>attachments\<close> array. The loop of the encoder reads its fields and
  puts \<open>mimeType\<close> and \<open>filename\<close> into template literals, which throws on a \<open>null\<close>
  element or on a field that cannot be made text (\<open>AttThrows\<close> with the message);
  otherwise it gives the two texts. The \<open>content\<close> is pushed as it is and made text
  only by \<open>lines.join\<close>, after the loop, which can throw in its turn. The field
  \<open>attachments\<close> of the payload is \<open>None\<close> when it is absent or not an array
  (\<open>Array.isArray(attachments) ? attachments : []\<close>).
\<close>

datatype attachment_value = AttThrows string | AttFields string string "error + string"

record webhook_payload =
  w_to :: json_field
  w_subject :: json_field
  w_body :: body_value
  w_attachments :: "attachment_value list option"

datatype json_result = JsonThrows string | JsonNull | JsonValue webhook_payload

record webhook_request =
  authorization :: "string option"
  json :: json_result

datatype response_body = ErrorJson string | OkJson "string option"

record http_response =
  status :: nat
  json_body :: response_body

definition getCredentialsFromEnv :: "webhook_env \<Rightarrow> error + env_credentials" where
  "getCredentialsFromEnv env =
     (if \<not> truthy_str (GMAIL_CLIENT_ID env) \<or> \<not> truthy_str (GMAIL_CLIENT_SECRET env)
         \<or> \<not> truthy_str (GMAIL_REFRESH_TOKEN env)
      then Inl (Error ''Missing GMAIL_CLIENT_ID, GMAIL_CLIENT_SECRET, or GMAIL_REFRESH_TOKEN. Set them in Vercel env (or .env.local).'')
      else Inr \<lparr>clientId = or_empty (GMAIL_CLIENT_ID env),
                clientSecret = or_empty (GMAIL_CLIENT_SECRET env),
                refreshToken = or_empty (GMAIL_REFRESH_TOKEN env)\<rparr>)"

definition body_is_string :: "body_value \<Rightarrow> bool" where
  "body_is_string b = (case b of BodyString _ \<Rightarrow> True | _ \<Rightarrow> False)"

definition body_string :: "body_value \<Rightarrow> string" where
  "body_string b = (case b of BodyString s \<Rightarrow> s | _ \<Rightarrow> [])"

text \<open>
  The values the webhook's \<open>buildRawEmail\<close> works on, in the order in which it makes
  them: the text of \<open>to\<close>, the bytes of \<open>subject\<close>, the fields of each attachment in
  the loop, and the contents in \<open>lines.join\<close>. The first conversion that throws ends
  the call. When none throws, the encoder runs on strings, as its signature declares.
\<close>

fun read_attachments :: "attachment_value list \<Rightarrow> error + (string \<times> string \<times> (error + string)) list" where
  "read_attachments [] = Inr []"
| "read_attachments (AttThrows m # vs) = Inl (Error m)"
| "read_attachments (AttFields mime name c # vs) =
     (case read_attachments vs of
        Inl e \<Rightarrow> Inl e
      | Inr entries \<Rightarrow> Inr ((mime, name, c) # entries))"

fun join_contents :: "(string \<times> string \<times> (error + string)) list \<Rightarrow> error + Attachment list" where
  "join_contents [] = Inr []"
| "join_contents ((mime, name, Inl e) # entries) = Inl e"
| "join_contents ((mime, name, Inr c) # entries) =
     (case join_contents entries of
        Inl e \<Rightarrow> Inl e
      | Inr atts \<Rightarrow> Inr (\<lparr>filename = name, mimeType = mime, content = c\<rparr> # atts))"

definition route_arguments :: "webhook_payload \<Rightarrow> error + route_options" where
  "route_arguments p =
     (case template_text (w_to p) of
        Inl e \<Rightarrow> Inl e
      | Inr to_text \<Rightarrow>
          (case buffer_bytes (w_subject p) of
             Inl e \<Rightarrow> Inl e
           | Inr subject_bytes \<Rightarrow>
               (case read_attachments (or_empty (w_attachments p)) of
                  Inl e \<Rightarrow> Inl e
                | Inr entries \<Rightarrow>
                    (case join_contents entries of
                       Inl e \<Rightarrow> Inl e
                     | Inr atts \<Rightarrow>
                         Inr \<lparr>r_to = to_text, r_subject = subject_bytes,
                              r_body = body_string (w_body p), r_attachments = atts\<rparr>))))"

text \<open>
  \<open>POST_try\<close> is the body of the \<open>try\<close> block and \<open>POST\<close> adds the \<open>catch\<close>. The
  provider's send is an argument.
\<close>

definition POST_try ::
  "webhook_env \<Rightarrow> (env_credentials \<Rightarrow> string \<Rightarrow> error + string option) \<Rightarrow> nat \<Rightarrow> webhook_request
     \<Rightarrow> error + http_response" where
  "POST_try env send now request =
     (let secret = WEBHOOK_SECRET env
      in if truthy_str secret \<and> authorization request \<noteq> Some (''Bearer '' @ or_empty secret)
         then Inr \<lparr>status = 401, json_body = ErrorJson ''Unauthorized''\<rparr>
         else
           (case json request of
              JsonThrows m \<Rightarrow> Inl (Error m)
            | JsonNull \<Rightarrow>
                Inl (Error ''Cannot destructure property 'to' of 'payload' as it is null.'')
            | JsonValue p \<Rightarrow>
                if \<not> truthy_field (w_to p) \<or> \<not> truthy_field (w_subject p)
                   \<or> \<not> body_is_string (w_body p)
                then Inr \<lparr>status = 400, json_body = ErrorJson ''Missing or invalid: to, subject, body''\<rparr>
                else
                  (case getCredentialsFromEnv env of
                     Inl e \<Rightarrow> Inl e
                   | Inr creds \<Rightarrow>
                       (case route_arguments p of
                          Inl e \<Rightarrow> Inl e
                        | Inr options \<Rightarrow>
                            (let raw = buildRawEmail_route now options
                             in case send creds raw of
                                  Inl e \<Rightarrow> Inl e
                                | Inr rid \<Rightarrow> Inr \<lparr>status = 200, json_body = OkJson rid\<rparr>)))))"

definition POST ::
  "webhook_env \<Rightarrow> (env_credentials \<Rightarrow> string \<Rightarrow> error + string option) \<Rightarrow> nat \<Rightarrow> webhook_request
     \<Rightarrow> http_response" where
  "POST env send now request =
     (case POST_try env send now request of
        Inr response \<Rightarrow> response
      | Inl (Error message) \<Rightarrow> \<lparr>status = 500, json_body = ErrorJson message\<rparr>)"

text \<open>
  The conditions of the status mapping, in the specification's words: the caller is
  unauthorized when a webhook secret is configured and the Authorization header is not
  exactly \<open>Bearer <secret>\<close>; a field is missing or empty when it is absent, the empty
  string, or one of the values JavaScript counts as empty (\<open>null\<close>, \<open>false\<close>, \<open>0\<close>); a
  payload is invalid when \<open>to\<close> or \<open>subject\<close> is missing or empty or \<open>body\<close> is not a
  string. A request body that is the JSON \<open>null\<close> carries neither \<open>to\<close> nor
  \<open>subject\<close>, so it is invalid as well.
\<close>

definition unauthorized :: "webhook_env \<Rightarrow> webhook_request \<Rightarrow> bool" where
  "unauthorized env request =
     (case WEBHOOK_SECRET env of
        None \<Rightarrow> False
      | Some secret \<Rightarrow> secret \<noteq> [] \<and> authorization request \<noteq> Some (''Bearer '' @ secret))"

definition missing_or_empty :: "json_field \<Rightarrow> bool" where
  "missing_or_empty v =
     (case v of Absent \<Rightarrow> True | JsonString s \<Rightarrow> s = [] | JsonOther t _ _ \<Rightarrow> \<not> t)"

definition invalid_payload :: "webhook_payload \<Rightarrow> bool" where
  "invalid_payload p =
     (missing_or_empty (w_to p) \<or> missing_or_empty (w_subject p)
      \<or> (case w_body p of BodyString _ \<Rightarrow> False | _ \<Rightarrow> True))"

definition invalid_request :: "json_result \<Rightarrow> bool" where
  "invalid_request j =
     (case j of JsonThrows _ \<Rightarrow> False | JsonNull \<Rightarrow> True | JsonValue p \<Rightarrow> invalid_payload p)"

subsection \<open>Sample inputs\<close>

text \<open>Concrete messages, clients and requests on which the theorems are instantiated.\<close>

definition sample_message :: "string \<Rightarrow> gmail_message" where
  "sample_message subj =
     \<lparr>m_id = ''m1'', m_threadId = ''t1'', m_snippet = Some ''hi'', m_labelIds = Some [''INBOX''],
      m_payload = Some
        \<lparr>pl_headers = Some [\<lparr>h_name = Some ''From'', h_value = Some ''a@b.com''\<rparr>,
                             \<lparr>h_name = Some ''subject'', h_value = Some subj\<rparr>],
         pl_parts = None,
         pl_body = Some \<lparr>data = Some ''aGkgdGhlcmU''\<rparr>\<rparr>\<rparr>"

definition sample_client :: "string \<Rightarrow> gmail_client" where
  "sample_client subj =
     \<lparr>messages_list = (\<lambda>q n. Inr (Some [\<lparr>ref_id = ''m1''\<rparr>, \<lparr>ref_id = ''m2''\<rparr>])),
      messages_get = (\<lambda>i f hs. Inr (sample_message subj)),
      messages_send = (\<lambda>raw t. Inr (Some ''s1'')),
      messages_batchModify = (\<lambda>ids a r. Inr ()),
      messages_batchDelete = (\<lambda>ids. Inr ()),
      filters_create = (\<lambda>c a. Inr (Some ''f1'')),
      threads_get = (\<lambda>i f. Inr (Some [sample_message subj]))\<rparr>"

definition sample_part :: "string \<Rightarrow> string option \<Rightarrow> message_part" where
  "sample_part mime d = \<lparr>p_mimeType = Some mime, p_body = Some \<lparr>data = d\<rparr>\<rparr>"

definition message_with :: "payload option \<Rightarrow> gmail_message" where
  "message_with pl =
     \<lparr>m_id = ''m1'', m_threadId = ''t1'', m_snippet = None, m_labelIds = None, m_payload = pl\<rparr>"

definition multipart_payload :: "message_part list \<Rightarrow> payload" where
  "multipart_payload ps = \<lparr>pl_headers = None, pl_parts = Some ps, pl_body = None\<rparr>"

definition single_payload :: "string option \<Rightarrow> payload" where
  "single_payload d = \<lparr>pl_headers = None, pl_parts = None, pl_body = Some \<lparr>data = d\<rparr>\<rparr>"

definition sample_attachment :: Attachment where
  "sample_attachment = \<lparr>filename = ''r.pdf'', mimeType = ''application/pdf'', content = ''QUJD''\<rparr>"

definition sample_options :: "string option \<Rightarrow> Attachment list option \<Rightarrow> email_options" where
  "sample_options html atts =
     \<lparr>o_to = ''a@b.com'', o_subject = ''Hi'', o_body = ''hi there'', o_htmlBody = html,
      o_cc = None, o_bcc = None, o_from = None, o_threadId = None, o_inReplyTo = None,
      o_references = None, o_attachments = atts\<rparr>"

definition sample_env :: webhook_env where
  "sample_env =
     \<lparr>WEBHOOK_SECRET = Some ''s3cret'', GMAIL_CLIENT_ID = Some ''id'',
      GMAIL_CLIENT_SECRET = Some ''cs'', GMAIL_REFRESH_TOKEN = Some ''rt''\<rparr>"

definition sample_payload :: webhook_payload where
  "sample_payload =
     \<lparr>w_to = JsonString ''a@b.com'', w_subject = JsonString ''Hi'',
      w_body = BodyString ''hi there'', w_attachments = None\<rparr>"

subsection \<open>Base64: decoding undoes encoding\<close>

lemma of_char_lt_256: "(of_char (c::char) :: nat) < 256"
  by (rule nat_of_char_less_256)

lemma toBase64_shape:
  "toBase64 s = map b64_char (enc_sx s) @ replicate (npad s) CHR ''=''"
  by (induction s rule: toBase64.induct) (simp_all add: Let_def numeral_2_eq_2)

lemma sx_bounds:
  fixes x y z :: nat
  assumes "x < 256" "y < 256" "z < 256"
  shows "x div 4 < 64" "x mod 4 * 16 < 64" "x mod 4 * 16 + y div 16 < 64"
    "y mod 16 * 4 < 64" "y mod 16 * 4 + z div 64 < 64" "z mod 64 < 64"
proof -
  have a: "x mod 4 < 4" "y mod 16 < 16" "y div 16 < 16" "z div 64 < 4"
    using assms by simp_all
  show "x div 4 < 64" using assms by simp
  show "x mod 4 * 16 < 64" using a by linarith
  show "x mod 4 * 16 + y div 16 < 64" using a by linarith
  show "y mod 16 * 4 < 64" using a by linarith
  show "y mod 16 * 4 + z div 64 < 64" using a by linarith
  show "z mod 64 < 64" by simp
qed

lemma enc_sx_bound: "x \<in> set (enc_sx s) \<Longrightarrow> x < 64"
proof (induction s arbitrary: x rule: enc_sx.induct)
  case 1
  then show ?case by simp
next
  case (2 a)
  note b = sx_bounds [OF of_char_lt_256 [of a] of_char_lt_256 [of a] of_char_lt_256 [of a]]
  from 2 have "x = of_char a div 4 \<or> x = of_char a mod 4 * 16"
    by (simp add: Let_def)
  with b show ?case by blast
next
  case (3 a b)
  note b = sx_bounds [OF of_char_lt_256 [of a] of_char_lt_256 [of b] of_char_lt_256 [of b]]
  from 3 have "x = of_char a div 4 \<or> x = of_char a mod 4 * 16 + of_char b div 16
      \<or> x = of_char b mod 16 * 4"
    by (simp add: Let_def)
  with b show ?case by blast
next
  case (4 a b c rest)
  note b = sx_bounds [OF of_char_lt_256 [of a] of_char_lt_256 [of b] of_char_lt_256 [of c]]
  from 4(2) have "x = of_char a div 4 \<or> x = of_char a mod 4 * 16 + of_char b div 16
      \<or> x = of_char b mod 16 * 4 + of_char c div 64 \<or> x = of_char c mod 64
      \<or> x \<in> set (enc_sx rest)"
    by (simp add: Let_def)
  with b 4(1) show ?case by blast
qed

lemma regroup1: "x div 4 * 4 + (x mod 4 * 16 + y div 16) div 16 = (x::nat)" if "y < 256"
  using that by (simp add: div_mult2_eq)

lemma regroup1': "x div 4 * 4 + (x mod 4 * 16) div 16 = (x::nat)"
  by simp

lemma regroup2:
  "(x mod 4 * 16 + y div 16) mod 16 * 16 + (y mod 16 * 4 + z div 64) div 4 = (y::nat)"
  if "y < 256" "z < 256"
proof -
  have a: "y div 16 < 16" using that by simp
  have b: "z div 64 < 4" using that by simp
  from a have "(x mod 4 * 16 + y div 16) mod 16 = y div 16" by simp
  moreover from b have "(y mod 16 * 4 + z div 64) div 4 = y mod 16" by simp
  ultimately show ?thesis by simp
qed

lemma regroup2': "(x mod 4 * 16 + y div 16) mod 16 * 16 + (y mod 16 * 4) div 4 = (y::nat)"
  if "y < 256"
proof -
  have "y div 16 < 16" using that by simp
  then have "(x mod 4 * 16 + y div 16) mod 16 = y div 16" by simp
  then show ?thesis by simp
qed

lemma regroup3: "(y mod 16 * 4 + z div 64) mod 4 * 64 + z mod 64 = (z::nat)" if "z < 256"
proof -
  have "z div 64 < 4" using that by simp
  then have "(y mod 16 * 4 + z div 64) mod 4 = z div 64" by simp
  then show ?thesis by simp
qed

lemma dec_groups_enc_sx: "dec_groups (enc_sx s) = s"
proof (induction s rule: enc_sx.induct)
  case 1
  then show ?case by simp
next
  case (2 a)
  show ?case
    by (simp only: enc_sx.simps Let_def dec_groups.simps regroup1' char_of_char)
next
  case (3 a b)
  note lt = of_char_lt_256 [of b]
  show ?case
    by (simp only: enc_sx.simps Let_def dec_groups.simps regroup1 [OF lt] regroup2' [OF lt]
        char_of_char)
next
  case (4 a b c rest)
  note lb = of_char_lt_256 [of b] and lc = of_char_lt_256 [of c]
  show ?case
    by (simp only: enc_sx.simps Let_def dec_groups.simps append_Cons append_Nil
        regroup1 [OF lb] regroup2 [OF lb lc] regroup3 [OF lc] char_of_char 4)
qed

lemma unbase64_b64_char: "i < 64 \<Longrightarrow> unbase64 (b64_char i) = Some i"
  by (auto simp: unbase64_def b64_char_def Let_def)

lemma unbase64_eq_sign: "unbase64 CHR ''='' = None"
  by (simp add: unbase64_def)

lemma b64_char_not_eq_sign: "i < 64 \<Longrightarrow> b64_char i \<noteq> CHR ''=''"
  using unbase64_b64_char [of i] unbase64_eq_sign by auto

lemma sextets_bytes_shape:
  "\<forall>x \<in> set xs. x < 64 \<Longrightarrow> sextets_bytes (map b64_char xs @ replicate k CHR ''='') = xs"
proof (induction xs)
  case Nil
  show ?case by (cases k) (simp_all add: sextets_bytes_def)
next
  case (Cons x xs)
  then have "x < 64" and ih: "sextets_bytes (map b64_char xs @ replicate k CHR ''='') = xs"
    by simp_all
  from \<open>x < 64\<close> have "b64_char x \<noteq> CHR ''=''" "unbase64 (b64_char x) = Some x"
    by (simp_all add: b64_char_not_eq_sign unbase64_b64_char)
  with ih show ?case by (simp add: sextets_bytes_def)
qed

lemma sextets_bytes_toBase64: "sextets_bytes (toBase64 s) = enc_sx s"
  unfolding toBase64_shape by (rule sextets_bytes_shape) (simp add: enc_sx_bound)

lemma sextets_bytes_replace_all:
  assumes "unbase64 x = unbase64 y" "x \<noteq> CHR ''=''" "y \<noteq> CHR ''=''"
  shows "sextets_bytes (replace_all x y s) = sextets_bytes s"
  using assms
  by (induction s) (auto simp: sextets_bytes_def replace_all_def split: option.splits)

lemma takeWhile_snoc_stop: "\<not> P x \<Longrightarrow> takeWhile P (t @ [x]) = takeWhile P t"
  by (induction t) simp_all

lemma sextets_bytes_strip_trailing_eq: "sextets_bytes (strip_trailing_eq s) = sextets_bytes s"
proof (induction s rule: rev_induct)
  case Nil
  show ?case by (simp add: strip_trailing_eq_def)
next
  case (snoc x t)
  show ?case
  proof (cases "x = CHR ''=''")
    case True
    then have "strip_trailing_eq (t @ [x]) = strip_trailing_eq t"
      by (simp add: strip_trailing_eq_def)
    moreover from True have "sextets_bytes (t @ [x]) = sextets_bytes t"
      by (simp add: sextets_bytes_def takeWhile_snoc_stop)
    ultimately show ?thesis using snoc by simp
  next
    case False
    then show ?thesis by (simp add: strip_trailing_eq_def)
  qed
qed

lemma unbase64_url_pairs:
  "unbase64 CHR ''+'' = unbase64 CHR ''-''" "unbase64 CHR ''/'' = unbase64 CHR ''_''"
  by (simp_all add: unbase64_def)

lemma is_base64_char_b64_char: "is_base64_char (b64_char i)"
  by (auto simp: is_base64_char_def b64_char_def Let_def)

lemma toBase64_alphabet: "c \<in> set (toBase64 s) \<Longrightarrow> is_base64_char c"
  unfolding toBase64_shape
  by (auto simp: is_base64_char_b64_char) (simp add: is_base64_char_def)

text \<open>On ASCII text every code unit is the byte itself, so the decoder reads the bytes.\<close>

lemma ascii_unit_bytes: "list_all (in_range 0 127) s \<Longrightarrow> unit_bytes s = s"
  by (induction s) (simp_all add: unit_bytes_def)

lemma ascii_sextets: "list_all (in_range 0 127) s \<Longrightarrow> sextets s = sextets_bytes s"
  by (simp add: sextets_def ascii_unit_bytes)

lemma base64_char_ascii: "is_base64_char c \<Longrightarrow> in_range 0 127 c"
  by (auto simp: is_base64_char_def in_range_def Let_def)

lemma ascii_toBase64: "list_all (in_range 0 127) (toBase64 s)"
  by (simp add: list_all_iff toBase64_alphabet base64_char_ascii)

lemma ascii_replace_all:
  "in_range 0 127 y \<Longrightarrow> list_all (in_range 0 127) s \<Longrightarrow> list_all (in_range 0 127) (replace_all x y s)"
  by (induction s) (simp_all add: replace_all_def)

lemma ascii_strip_trailing_eq:
  "list_all (in_range 0 127) s \<Longrightarrow> list_all (in_range 0 127) (strip_trailing_eq s)"
  by (auto simp: strip_trailing_eq_def list_all_iff dest: set_dropWhileD)

lemma ascii_url_chars:
  "in_range 0 127 CHR ''-''" "in_range 0 127 CHR ''_''" "in_range 0 127 CHR ''+''"
  "in_range 0 127 CHR ''/''"
  by (simp_all add: in_range_def)

lemma ascii_encodeBase64Url: "list_all (in_range 0 127) (encodeBase64Url s)"
  by (simp add: encodeBase64Url_def ascii_strip_trailing_eq ascii_replace_all ascii_url_chars
      ascii_toBase64)

lemma sextets_toBase64: "sextets (toBase64 s) = enc_sx s"
  by (simp add: ascii_sextets ascii_toBase64 sextets_bytes_toBase64)

lemma fromBase64_toBase64: "fromBase64 (toBase64 s) = s"
  by (simp add: fromBase64_def sextets_toBase64 dec_groups_enc_sx)

lemma sextets_encodeBase64Url: "sextets (encodeBase64Url s) = enc_sx s"
proof -
  have "sextets (encodeBase64Url s) = sextets_bytes (encodeBase64Url s)"
    by (simp add: ascii_sextets ascii_encodeBase64Url)
  also have "\<dots> = enc_sx s"
    by (simp add: encodeBase64Url_def sextets_bytes_strip_trailing_eq sextets_bytes_replace_all
        unbase64_url_pairs sextets_bytes_toBase64)
  finally show ?thesis .
qed

lemma fromBase64_encodeBase64Url: "fromBase64 (encodeBase64Url s) = s"
  by (simp add: fromBase64_def sextets_encodeBase64Url dec_groups_enc_sx)





subsection \<open>The encoder's output, part by part\<close>

lemma push_opt_header_eq: "push_opt_header ls name v = ls @ opt_header name v"
  by (simp add: push_opt_header_def opt_header_def push_def split: option.splits)

lemma push_list_header_eq: "push_list_header ls name v = ls @ list_header name v"
  by (simp add: push_list_header_def list_header_def push_def split: option.splits)

lemma push_headers_eq: "push_headers ls options = ls @ header_lines options"
  by (simp add: push_headers_def header_lines_def Let_def push_def push_opt_header_eq
      push_list_header_eq)

lemma push_text_part_eq: "push_text_part ls subtype text = ls @ text_part subtype text"
  by (simp add: push_text_part_def text_part_def Let_def push_def)

lemma push_alternative_eq:
  "push_alternative ls bnd text html = ls @ alternative_header bnd @ alternative_group bnd text html"
  by (simp add: push_alternative_def alternative_header_def alternative_group_def Let_def push_def
      push_text_part_eq text_part_def)

lemma push_attachment_eq: "push_attachment bnd ls att = ls @ (''--'' @ bnd) # attachment_part att"
  by (simp add: push_attachment_def attachment_part_def Let_def push_def)

lemma foldl_push_attachment:
  "foldl (push_attachment bnd) ls atts
     = ls @ concat (map (\<lambda>p. (''--'' @ bnd) # p) (map attachment_part atts))"
  by (induction atts arbitrary: ls) (simp_all add: push_attachment_eq)

lemma lines_with_attachments:
  assumes "o_attachments options = Some atts" "atts \<noteq> []"
  shows "buildRawEmail_lines now1 now2 options
       = header_lines options @ mixed_header (boundary_token now1)
         @ multipart_body (boundary_token now1)
             (body_part (altBoundary_token now2) options # map attachment_part atts)"
  using assms
  by (simp add: buildRawEmail_lines_def Let_def truthy_len_def truthy_str_def or_empty_def
      push_headers_eq push_def push_text_part_eq push_alternative_eq foldl_push_attachment
      mixed_header_def multipart_body_def body_part_def split: option.splits)

lemma lines_alternative:
  assumes "\<not> truthy_len (o_attachments options)" "o_htmlBody options = Some html" "html \<noteq> []"
  shows "buildRawEmail_lines now1 now2 options
       = header_lines options @ alternative_header (boundary_token now1)
         @ alternative_group (boundary_token now1) (o_body options) html"
  using assms
  by (simp add: buildRawEmail_lines_def Let_def truthy_str_def or_empty_def
      push_headers_eq push_alternative_eq)

lemma lines_plain:
  assumes "\<not> truthy_len (o_attachments options)" "\<not> truthy_str (o_htmlBody options)"
  shows "buildRawEmail_lines now1 now2 options
       = header_lines options @ text_part ''plain'' (o_body options)"
  using assms
  by (simp add: buildRawEmail_lines_def Let_def push_headers_eq push_text_part_eq)

lemma route_lines:
  "buildRawEmail_route_lines now options
     = route_header_lines options @ mixed_header (boundary_token now)
       @ multipart_body (boundary_token now)
           (text_part ''plain'' (r_body options) # map attachment_part (r_attachments options))"
  by (simp add: buildRawEmail_route_lines_def Let_def push_def push_text_part_eq
      foldl_push_attachment route_header_lines_def mixed_header_def multipart_body_def)

lemma show_nat_digit: "show_nat 5 = ''5''" "show_nat 6 = ''6''"
  by (simp_all add: show_nat.simps digit_char_def char_of_def bit_Suc_0_iff)

subsection \<open>The raw message and its lines\<close>

lemma join_lines_text: "ls \<noteq> [] \<Longrightarrow> join CRLF ls = lines_text ls"
  by (induction CRLF ls rule: join.induct) (simp_all add: lines_text_def CRLF_def)

lemma split_crlf_not_Nil: "split_crlf s \<noteq> []"
  by (induction s rule: split_crlf.induct) (auto split: list.splits)

lemma split_crlf_single: "single_line l \<Longrightarrow> split_crlf l = [l]"
  by (induction l rule: split_crlf.induct) (auto simp: single_line_def split: list.splits)

lemma split_crlf_line:
  "single_line l \<Longrightarrow> split_crlf (l @ CHR 0x0D # CHR 0x0A # rest) = l # split_crlf rest"
proof (induction l)
  case Nil
  show ?case by simp
next
  case (Cons c l)
  then have c: "c \<noteq> CHR 0x0D" and l: "single_line l"
    by (auto simp: single_line_def)
  obtain d t where dt: "l @ CHR 0x0D # CHR 0x0A # rest = d # t"
    by (cases l) auto
  from Cons.IH [OF l] dt c show ?case by simp
qed

lemma split_lines_text:
  "ls \<noteq> [] \<Longrightarrow> \<forall>l \<in> set ls. single_line l \<Longrightarrow> split_crlf (lines_text ls) = ls"
proof (induction ls rule: list_nonempty_induct)
  case (single l)
  then show ?case by (simp add: lines_text_def split_crlf_single)
next
  case (cons l ls)
  then have "lines_text (l # ls) = l @ CHR 0x0D # CHR 0x0A # lines_text ls"
    by (simp add: lines_text_def)
  with cons show ?case by (simp add: split_crlf_line)
qed

lemma lines_nonempty:
  "buildRawEmail_lines now1 now2 options \<noteq> []" "buildRawEmail_route_lines now ropts \<noteq> []"
  by (simp_all add: buildRawEmail_lines_def buildRawEmail_route_lines_def Let_def push_def
      push_headers_eq push_text_part_eq push_alternative_eq foldl_push_attachment text_part_def
      alternative_group_def)

lemma raw_message:
  "fromBase64 (buildRawEmail now1 now2 options) = lines_text (buildRawEmail_lines now1 now2 options)"
  by (simp add: buildRawEmail_def fromBase64_encodeBase64Url join_lines_text lines_nonempty)

lemma raw_message_route:
  "fromBase64 (buildRawEmail_route now ropts) = lines_text (buildRawEmail_route_lines now ropts)"
  by (simp add: buildRawEmail_route_def fromBase64_encodeBase64Url join_lines_text lines_nonempty)

lemma message_lines_clean:
  assumes "\<forall>l \<in> set (buildRawEmail_lines now1 now2 options). single_line l"
  shows "message_lines (buildRawEmail now1 now2 options) = buildRawEmail_lines now1 now2 options"
  using assms by (simp add: message_lines_def raw_message split_lines_text lines_nonempty)

lemma message_lines_route_clean:
  assumes "\<forall>l \<in> set (buildRawEmail_route_lines now ropts). single_line l"
  shows "message_lines (buildRawEmail_route now ropts) = buildRawEmail_route_lines now ropts"
  using assms by (simp add: message_lines_def raw_message_route split_lines_text lines_nonempty)

lemma show_nat_digits: "c \<in> set (show_nat n) \<Longrightarrow> in_range 48 57 c"
proof (induction n arbitrary: c rule: show_nat.induct)
  case (1 n)
  have d: "in_range 48 57 (digit_char k)" if "k < 10" for k
    using that by (simp add: in_range_def digit_char_def)
  show ?case
  proof (cases "n < 10")
    case True
    with 1(2) d [of n] show ?thesis
      by (simp add: show_nat.simps [of n])
  next
    case False
    with 1(2) have "c \<in> set (show_nat (n div 10)) \<or> c = digit_char (n mod 10)"
      by (auto simp: show_nat.simps [of n])
    with 1(1) [OF False] d [of "n mod 10"] show ?thesis by auto
  qed
qed

subsection \<open>Fields that stay on their line\<close>

lemma single_line_Nil [simp]: "single_line []"
  by (simp add: single_line_def)

lemma single_line_Cons [simp]: "single_line (c # s) = (c \<noteq> CHR 0x0D \<and> single_line s)"
  by (auto simp: single_line_def)

lemma single_line_append [simp]: "single_line (a @ b) = (single_line a \<and> single_line b)"
  by (auto simp: single_line_def)

lemma single_line_show_nat [simp]: "single_line (show_nat n)"
  using show_nat_digits [of "CHR 0x0D" n] by (auto simp: single_line_def in_range_def)

lemma single_line_tokens [simp]:
  "single_line (boundary_token n)" "single_line (altBoundary_token n)"
  by (simp_all add: boundary_token_def altBoundary_token_def)

lemma single_line_base64_text: "base64_text s \<Longrightarrow> single_line s"
  by (auto simp: base64_text_def single_line_def list_all_iff is_base64_char_def)

lemma single_line_toBase64 [simp]: "single_line (toBase64 s)"
  by (rule single_line_base64_text) (simp add: base64_text_def list_all_iff toBase64_alphabet)

lemma single_line_join:
  "single_line sep \<Longrightarrow> list_all single_line xs \<Longrightarrow> single_line (join sep xs)"
  by (induction sep xs rule: join.induct) simp_all

lemma opt_header_single:
  "(case v of None \<Rightarrow> True | Some s \<Rightarrow> single_line s) \<Longrightarrow> l \<in> set (opt_header name v)
     \<Longrightarrow> single_line name \<Longrightarrow> single_line l"
  by (auto simp: opt_header_def split: option.splits if_splits)

lemma list_header_single:
  "list_all single_line (or_empty v) \<Longrightarrow> l \<in> set (list_header name v)
     \<Longrightarrow> single_line name \<Longrightarrow> single_line l"
  by (auto simp: list_header_def or_empty_def single_line_join split: option.splits if_splits)

lemma header_lines_single:
  assumes "clean_headers options" and "l \<in> set (header_lines options)"
  shows "single_line l"
proof -
  from assms(2) consider
      "l = ''To: '' @ o_to options"
    | "l \<in> set (opt_header ''From'' (o_from options))"
    | "l \<in> set (list_header ''Cc'' (o_cc options))"
    | "l \<in> set (list_header ''Bcc'' (o_bcc options))"
    | "l = ''Subject: =?UTF-8?B?'' @ toBase64 (o_subject options) @ ''?=''"
    | "l \<in> set (opt_header ''In-Reply-To'' (o_inReplyTo options))"
    | "l \<in> set (opt_header ''References'' (o_references options))"
    | "l = ''MIME-Version: 1.0''"
    unfolding header_lines_def set_append by auto
  then show ?thesis
  proof cases
    case 1
    with assms(1) show ?thesis by (simp add: clean_headers_def)
  next
    case 2
    with assms(1) show ?thesis by (intro opt_header_single [OF _ 2]) (simp_all add: clean_headers_def)
  next
    case 3
    with assms(1) show ?thesis by (intro list_header_single [OF _ 3]) (simp_all add: clean_headers_def)
  next
    case 4
    with assms(1) show ?thesis by (intro list_header_single [OF _ 4]) (simp_all add: clean_headers_def)
  next
    case 5
    then show ?thesis by simp
  next
    case 6
    with assms(1) show ?thesis by (intro opt_header_single [OF _ 6]) (simp_all add: clean_headers_def)
  next
    case 7
    with assms(1) show ?thesis by (intro opt_header_single [OF _ 7]) (simp_all add: clean_headers_def)
  next
    case 8
    then show ?thesis by simp
  qed
qed

lemma text_part_single: "l \<in> set (text_part ''plain'' t) \<Longrightarrow> single_line l"
  by (auto simp: text_part_def)

lemma alternative_single:
  "l \<in> set (alternative_header (altBoundary_token n) @ alternative_group (altBoundary_token n) t h)
     \<Longrightarrow> single_line l"
  "l \<in> set (alternative_header (boundary_token n) @ alternative_group (boundary_token n) t h)
     \<Longrightarrow> single_line l"
  by (auto simp: alternative_header_def alternative_group_def)

lemma attachment_part_single:
  "clean_attachment a \<Longrightarrow> l \<in> set (attachment_part a) \<Longrightarrow> single_line l"
  by (auto simp: clean_attachment_def attachment_part_def)

lemma body_part_single:
  "l \<in> set (body_part (altBoundary_token n) options) \<Longrightarrow> single_line l"
  using text_part_single alternative_single(1)
  by (auto simp: body_part_def split: option.splits if_splits)

lemma multipart_body_single:
  assumes "\<forall>p \<in> set parts. \<forall>l \<in> set p. single_line l"
    and "l \<in> set (multipart_body (boundary_token n) parts)"
  shows "single_line l"
  using assms by (auto simp: multipart_body_def split: if_splits)

lemma mixed_header_single: "l \<in> set (mixed_header (boundary_token n)) \<Longrightarrow> single_line l"
  by (auto simp: mixed_header_def)

subsection \<open>Delimiter lines\<close>

text \<open>
  A delimiter line starts with \<open>--\<close>. Header lines start with the letter of their
  name, base64 text holds no \<open>-\<close>, and the delimiters of the nested group differ from
  those of the outer one in their third character. Of the lines of an attachment's part
  only the content can be a delimiter line.
\<close>

lemma opt_header_first: "c \<noteq> CHR ''-'' \<Longrightarrow> CHR ''-'' # t \<notin> set (opt_header (c # n) v)"
  by (auto simp: opt_header_def split: option.splits)

lemma list_header_first: "c \<noteq> CHR ''-'' \<Longrightarrow> CHR ''-'' # t \<notin> set (list_header (c # n) v)"
  by (auto simp: list_header_def split: option.splits)

lemma header_no_delimiter: "CHR ''-'' # t \<notin> set (header_lines options)"
  by (simp add: header_lines_def opt_header_first list_header_first)

lemma route_header_no_delimiter: "CHR ''-'' # t \<notin> set (route_header_lines ropts)"
  by (simp add: route_header_lines_def)

lemma base64_text_no_dash: "base64_text s \<Longrightarrow> s \<noteq> CHR ''-'' # t"
  by (auto simp: base64_text_def is_base64_char_def)

lemma toBase64_no_dash: "toBase64 s \<noteq> CHR ''-'' # t"
  by (rule base64_text_no_dash) (simp add: base64_text_def list_all_iff toBase64_alphabet)

lemma text_part_no_delimiter: "CHR ''-'' # t \<notin> set (text_part ''plain'' b)"
  using toBase64_no_dash [of b t] by (auto simp: text_part_def)

lemma alternative_no_delimiter:
  "''--'' @ boundary_token n @ t
     \<notin> set (alternative_header (altBoundary_token m) @ alternative_group (altBoundary_token m) b h)"
  using toBase64_no_dash [of b "CHR ''-'' # boundary_token n @ t"]
    toBase64_no_dash [of h "CHR ''-'' # boundary_token n @ t"]
  by (auto simp: alternative_header_def alternative_group_def boundary_token_def
      altBoundary_token_def)

lemma body_part_no_delimiter:
  "''--'' @ boundary_token n @ t \<notin> set (body_part (altBoundary_token m) options)"
  using alternative_no_delimiter [of n t m]
    text_part_no_delimiter [of "CHR ''-'' # boundary_token n @ t"]
  by (auto simp: body_part_def split: option.splits)

lemma content_no_dashes: "take 2 c \<noteq> ''--'' \<Longrightarrow> c \<noteq> CHR ''-'' # CHR ''-'' # t"
  by auto

lemma attachment_part_no_delimiter:
  "take 2 (content a) \<noteq> ''--'' \<Longrightarrow> CHR ''-'' # CHR ''-'' # t \<notin> set (attachment_part a)"
  using content_no_dashes [of "content a" t] by (auto simp: attachment_part_def)

lemma mixed_header_no_delimiter: "CHR ''-'' # t \<notin> set (mixed_header bnd)"
  by (simp add: mixed_header_def)

lemma filter_absent: "d \<notin> set ls \<Longrightarrow> filter (\<lambda>l. l = d) ls = []"
  by (induction ls) auto

lemma count_delimiters:
  "\<forall>p \<in> set parts. d \<notin> set p
     \<Longrightarrow> length (filter (\<lambda>l. l = d) (concat (map (\<lambda>p. d # p) parts))) = length parts"
  by (induction parts) (simp_all add: filter_absent)

lemma count_parts:
  assumes "d \<noteq> cl" "cl \<notin> set hs" "d \<notin> set hs" "\<forall>p \<in> set parts. d \<notin> set p \<and> cl \<notin> set p"
  shows "length (filter (\<lambda>l. l = d)
           (takeWhile (\<lambda>l. l \<noteq> cl) (hs @ concat (map (\<lambda>p. d # p) parts) @ [cl])))
       = length parts"
proof -
  let ?xs = "hs @ concat (map (\<lambda>p. d # p) parts)"
  have "\<And>x. x \<in> set ?xs \<Longrightarrow> x \<noteq> cl"
    using assms(1,2,4) by (auto split: if_splits)
  then have "takeWhile (\<lambda>l. l \<noteq> cl) (?xs @ [cl]) = ?xs @ takeWhile (\<lambda>l. l \<noteq> cl) [cl]"
    by (rule takeWhile_append2)
  then have "takeWhile (\<lambda>l. l \<noteq> cl) (hs @ concat (map (\<lambda>p. d # p) parts) @ [cl]) = ?xs"
    by simp
  moreover have "\<forall>p \<in> set parts. d \<notin> set p"
    using assms(4) by simp
  ultimately show ?thesis
    using assms(3) by (simp add: filter_absent count_delimiters)
qed

text \<open>The lines of the attachment parts, six for each attachment.\<close>

lemma attachment_block:
  "i < length atts \<Longrightarrow>
     take 6 (drop (6 * i) (concat (map (\<lambda>p. d # p) (map attachment_part atts)) @ rest))
       = d # attachment_part (atts ! i)"
proof (induction atts arbitrary: i)
  case Nil
  then show ?case by simp
next
  case (Cons a atts)
  define blk where "blk = d # attachment_part a"
  define more where "more = concat (map (\<lambda>p. d # p) (map attachment_part atts)) @ rest"
  have len: "length blk = 6"
    by (simp add: blk_def attachment_part_def)
  have whole: "concat (map (\<lambda>p. d # p) (map attachment_part (a # atts))) @ rest = blk @ more"
    by (simp add: blk_def more_def)
  show ?case
  proof (cases i)
    case 0
    with len show ?thesis
      unfolding whole by (simp add: blk_def)
  next
    case (Suc j)
    with Cons.prems have j: "j < length atts" by simp
    have "drop (6 * i) (blk @ more) = drop (6 * j) more"
      using len Suc by simp
    with Cons.IH [OF j] Suc show ?thesis
      unfolding whole by (simp add: more_def)
  qed
qed

subsection \<open>The lines of a message with attachments\<close>

lemma mixed_lines_clean:
  assumes "o_attachments options = Some atts" "atts \<noteq> []"
    and "clean_headers options" "\<forall>a \<in> set atts. clean_attachment a"
  shows "\<forall>l \<in> set (buildRawEmail_lines now1 now2 options). single_line l"
proof
  fix l
  assume "l \<in> set (buildRawEmail_lines now1 now2 options)"
  then consider "l \<in> set (header_lines options)"
    | "l \<in> set (mixed_header (boundary_token now1))"
    | "l \<in> set (multipart_body (boundary_token now1)
                  (body_part (altBoundary_token now2) options # map attachment_part atts))"
    unfolding lines_with_attachments [OF assms(1,2)] by auto
  then show "single_line l"
  proof cases
    case 1
    with assms(3) show ?thesis by (rule header_lines_single)
  next
    case 2
    then show ?thesis by (rule mixed_header_single)
  next
    case 3
    have "\<forall>p \<in> set (body_part (altBoundary_token now2) options # map attachment_part atts).
            \<forall>l \<in> set p. single_line l"
      using assms(4) body_part_single attachment_part_single by auto
    from multipart_body_single [OF this 3] show ?thesis .
  qed
qed

lemma mixed_message_lines:
  assumes "o_attachments options = Some atts" "atts \<noteq> []"
    and "clean_headers options" "\<forall>a \<in> set atts. clean_attachment a"
  shows "message_lines (buildRawEmail now1 now2 options)
       = header_lines options @ mixed_header (boundary_token now1)
         @ multipart_body (boundary_token now1)
             (body_part (altBoundary_token now2) options # map attachment_part atts)"
  using message_lines_clean [OF mixed_lines_clean [OF assms]] lines_with_attachments [OF assms(1,2)]
  by simp

lemma mixed_part_count:
  assumes "\<forall>a \<in> set atts. take 2 (content a) \<noteq> ''--''"
    and "\<And>t. CHR ''-'' # t \<notin> set hs"
    and "\<And>t. CHR ''-'' # CHR ''-'' # boundary_token n @ t \<notin> set body"
  shows "length (filter (\<lambda>l. l = ''--'' @ boundary_token n)
           (takeWhile (\<lambda>l. l \<noteq> ''--'' @ boundary_token n @ ''--'')
              (hs @ mixed_header (boundary_token n)
               @ multipart_body (boundary_token n) (body # map attachment_part atts))))
       = 1 + length atts"
proof -
  let ?d = "''--'' @ boundary_token n"
  let ?cl = "''--'' @ boundary_token n @ ''--''"
  have parts: "\<forall>p \<in> set (body # map attachment_part atts). ?d \<notin> set p \<and> ?cl \<notin> set p"
    using assms(1) assms(3) [of "[]"] assms(3) [of "''--''"] attachment_part_no_delimiter
    by auto
  have hs: "?cl \<notin> set (hs @ mixed_header (boundary_token n))"
    "?d \<notin> set (hs @ mixed_header (boundary_token n))"
    using assms(2) mixed_header_no_delimiter by simp_all
  have "?d \<noteq> ?cl"
    by simp
  from count_parts [OF this hs parts] show ?thesis
    by (simp add: multipart_body_def)
qed

lemma route_lines_clean:
  assumes "single_line (r_to ropts)" "\<forall>a \<in> set (r_attachments ropts). clean_attachment a"
  shows "\<forall>l \<in> set (buildRawEmail_route_lines now ropts). single_line l"
proof
  fix l
  assume "l \<in> set (buildRawEmail_route_lines now ropts)"
  then consider "l \<in> set (route_header_lines ropts)"
    | "l \<in> set (mixed_header (boundary_token now))"
    | "l \<in> set (multipart_body (boundary_token now)
                  (text_part ''plain'' (r_body ropts) # map attachment_part (r_attachments ropts)))"
    unfolding route_lines by auto
  then show "single_line l"
  proof cases
    case 1
    with assms(1) show ?thesis by (auto simp: route_header_lines_def)
  next
    case 2
    then show ?thesis by (rule mixed_header_single)
  next
    case 3
    have "\<forall>p \<in> set (text_part ''plain'' (r_body ropts) # map attachment_part (r_attachments ropts)).
            \<forall>l \<in> set p. single_line l"
      using assms(2) text_part_single attachment_part_single by auto
    from multipart_body_single [OF this 3] show ?thesis .
  qed
qed

lemma route_message_lines:
  assumes "single_line (r_to ropts)" "\<forall>a \<in> set (r_attachments ropts). clean_attachment a"
  shows "message_lines (buildRawEmail_route now ropts)
       = route_header_lines ropts @ mixed_header (boundary_token now)
         @ multipart_body (boundary_token now)
             (text_part ''plain'' (r_body ropts) # map attachment_part (r_attachments ropts))"
  using message_lines_route_clean [OF route_lines_clean [OF assms]] route_lines by simp

lemma attachment_blocks:
  \<open>concat (map (\<lambda>p. d # p) (map attachment_part atts))
     = concat (map (\<lambda>a. [d,
          ''Content-Type: '' @ mimeType a @ ''; name="'' @ filename a @ ''"'',
          ''Content-Transfer-Encoding: base64'',
          ''Content-Disposition: attachment; filename="'' @ filename a @ ''"'',
          '''',
          content a]) atts)\<close>
  by (induction atts) (simp_all add: attachment_part_def)

text \<open>Base64 text, which the content of an attachment is documented to be, is clean.\<close>

lemma base64_content_clean:
  "base64_text (content a) \<Longrightarrow> single_line (content a) \<and> take 2 (content a) \<noteq> ''--''"
proof
  assume b: "base64_text (content a)"
  then show "single_line (content a)"
    by (rule single_line_base64_text)
  show "take 2 (content a) \<noteq> ''--''"
  proof
    assume "take 2 (content a) = ''--''"
    then obtain t where "content a = CHR ''-'' # t"
      by (cases "content a") auto
    with base64_text_no_dash [OF b, of t] show False by simp
  qed
qed

subsection \<open>Body extraction\<close>

lemma decodeBase64Url_Nil: "decodeBase64Url [] = []"
  by (simp add: decodeBase64Url_def replace_all_def fromBase64_def sextets_def sextets_bytes_def
      unit_bytes_def)

lemma decode_if_truthy:
  "(if truthy_str d then decodeBase64Url (or_empty d) else []) = data_text d"
  by (cases d) (simp_all add: truthy_str_def or_empty_def data_text_def decodeBase64Url_Nil)

lemma find_first:
  assumes "xs = pre @ x # post" "P x" "\<forall>q \<in> set pre. \<not> P q"
  shows "find P xs = Some x"
  using assms by (induction pre arbitrary: xs) auto

lemma find_Some_mem: "find P xs = Some x \<Longrightarrow> x \<in> set xs"
  by (induction xs) (auto split: if_splits)

lemma find_none: "\<forall>q \<in> set xs. \<not> P q \<Longrightarrow> find P xs = None"
  by (simp add: find_None_iff)

lemma parse_body_parts:
  assumes "pl_parts payload = Some parts"
  shows "parseMessage_body (Some payload)
       = (case or_else (find (\<lambda>p. p_mimeType p = Some ''text/plain'') parts)
                       (find (\<lambda>p. p_mimeType p = Some ''text/html'') parts) of
            None \<Rightarrow> []
          | Some p \<Rightarrow> part_text p)"
  using assms
  by (simp add: parseMessage_body_def Let_def decode_if_truthy part_text_def split: option.splits)

lemma parse_body_no_parts:
  assumes "pl_parts payload = None"
  shows "parseMessage_body (Some payload) = data_text (body_data (pl_body payload))"
  using assms by (simp add: parseMessage_body_def Let_def decode_if_truthy)

lemma pm_body_parseMessage: "pm_body (parseMessage message) = parseMessage_body (m_payload message)"
  by (simp add: parseMessage_def Let_def)

lemma data_text_no_data: "no_data b \<Longrightarrow> data_text (body_data b) = []"
  by (auto simp: no_data_def data_text_def decodeBase64Url_Nil)

lemma decode_samples:
  "decodeBase64Url ''aGkgdGhlcmU'' = ''hi there''"
  "decodeBase64Url ''PGI-aGk8L2I-'' = ''<b>hi</b>''"
  by code_simp+

text \<open>
  Claim C6, as the claim states it, fails on a payload whose \<open>parts\<close> array is empty.
  Such a payload has no sub-parts, so the claim takes the body from the payload's own
  body; the source tests \<open>if (parts)\<close>, which an empty array passes, finds no text
  part in it, and returns the empty body without looking at the payload's own body.
\<close>

theorem empty_parts_array_hides_body:
  "\<not> has_sub_parts \<lparr>pl_headers = None, pl_parts = Some [],
                      pl_body = Some \<lparr>data = Some ''aGkgdGhlcmU''\<rparr>\<rparr>
   \<and> spec_body \<lparr>pl_headers = None, pl_parts = Some [],
                 pl_body = Some \<lparr>data = Some ''aGkgdGhlcmU''\<rparr>\<rparr> = ''hi there''
   \<and> pm_body (parseMessage (message_with (Some
        \<lparr>pl_headers = None, pl_parts = Some [],
         pl_body = Some \<lparr>data = Some ''aGkgdGhlcmU''\<rparr>\<rparr>))) = []"
  by (simp add: has_sub_parts_def spec_body_def data_text_def body_data_def decode_samples
      pm_body_parseMessage message_with_def parse_body_parts or_else_def)

text \<open>
  Claim C6, amended. For a message with a payload: when the payload carries a \<open>parts\<close>
  array, the body is the decoded data of the first part whose mimeType is \<open>text/plain\<close>;
  when no part is \<open>text/plain\<close>, of the first part whose mimeType is \<open>text/html\<close>; when
  the array holds neither, and so when it is empty, the body is the empty string. When
  the payload carries no \<open>parts\<close> array, the body is the decoded data of the payload's
  own body. A part or payload body without data gives the empty string, and so does a
  message without payload; in particular the body is empty when no body anywhere holds
  data. On every payload but one with an empty \<open>parts\<close> array the body is the one the
  specification describes. \<open>parseMessage\<close> has no failing branch: it returns a parsed
  message for every input.
\<close>

theorem parseMessage_body_extraction:
  "(m_payload message = Some payload \<and> pl_parts payload = Some (pre @ tp # post)
      \<and> p_mimeType tp = Some ''text/plain''
      \<and> (\<forall>q \<in> set pre. p_mimeType q \<noteq> Some ''text/plain'')
    \<longrightarrow> pm_body (parseMessage message) = part_text tp)
   \<and> (m_payload message = Some payload \<and> pl_parts payload = Some (pre @ tp # post)
      \<and> p_mimeType tp = Some ''text/html''
      \<and> (\<forall>q \<in> set (pre @ tp # post). p_mimeType q \<noteq> Some ''text/plain'')
      \<and> (\<forall>q \<in> set pre. p_mimeType q \<noteq> Some ''text/html'')
    \<longrightarrow> pm_body (parseMessage message) = part_text tp)
   \<and> (m_payload message = Some payload \<and> pl_parts payload = Some parts
      \<and> (\<forall>q \<in> set parts. p_mimeType q \<noteq> Some ''text/plain'' \<and> p_mimeType q \<noteq> Some ''text/html'')
    \<longrightarrow> pm_body (parseMessage message) = [])
   \<and> (m_payload message = Some payload \<and> pl_parts payload = None
    \<longrightarrow> pm_body (parseMessage message) = data_text (body_data (pl_body payload)))
   \<and> (m_payload message = None \<longrightarrow> pm_body (parseMessage message) = [])
   \<and> (m_payload message = Some payload \<and> no_data (pl_body payload)
      \<and> (\<forall>q \<in> set (or_empty (pl_parts payload)). no_data (p_body q))
    \<longrightarrow> pm_body (parseMessage message) = [])
   \<and> (\<forall>p. no_data (p_body p) \<longrightarrow> part_text p = [])
   \<and> (m_payload message = Some payload \<and> pl_parts payload = Some []
    \<longrightarrow> pm_body (parseMessage message) = [])
   \<and> (m_payload message = Some payload \<and> pl_parts payload \<noteq> Some []
    \<longrightarrow> pm_body (parseMessage message) = spec_body payload)"
proof (intro conjI impI allI)
  assume a: "m_payload message = Some payload \<and> pl_parts payload = Some (pre @ tp # post)
      \<and> p_mimeType tp = Some ''text/plain''
      \<and> (\<forall>q \<in> set pre. p_mimeType q \<noteq> Some ''text/plain'')"
  then have "find (\<lambda>p. p_mimeType p = Some ''text/plain'') (pre @ tp # post) = Some tp"
    by (intro find_first [where pre = pre and post = post]) simp_all
  with a show "pm_body (parseMessage message) = part_text tp"
    by (simp add: pm_body_parseMessage parse_body_parts or_else_def)
next
  assume a: "m_payload message = Some payload \<and> pl_parts payload = Some (pre @ tp # post)
      \<and> p_mimeType tp = Some ''text/html''
      \<and> (\<forall>q \<in> set (pre @ tp # post). p_mimeType q \<noteq> Some ''text/plain'')
      \<and> (\<forall>q \<in> set pre. p_mimeType q \<noteq> Some ''text/html'')"
  then have "find (\<lambda>p. p_mimeType p = Some ''text/html'') (pre @ tp # post) = Some tp"
    by (intro find_first [where pre = pre and post = post]) simp_all
  moreover from a have "find (\<lambda>p. p_mimeType p = Some ''text/plain'') (pre @ tp # post) = None"
    by (intro find_none) blast
  ultimately show "pm_body (parseMessage message) = part_text tp"
    using a by (simp add: pm_body_parseMessage parse_body_parts or_else_def)
next
  assume a: "m_payload message = Some payload \<and> pl_parts payload = Some parts
      \<and> (\<forall>q \<in> set parts. p_mimeType q \<noteq> Some ''text/plain'' \<and> p_mimeType q \<noteq> Some ''text/html'')"
  then have "find (\<lambda>p. p_mimeType p = Some ''text/plain'') parts = None"
    "find (\<lambda>p. p_mimeType p = Some ''text/html'') parts = None"
    by (simp_all add: find_None_iff)
  with a show "pm_body (parseMessage message) = []"
    by (simp add: pm_body_parseMessage parse_body_parts or_else_def)
next
  assume "m_payload message = Some payload \<and> pl_parts payload = None"
  then show "pm_body (parseMessage message) = data_text (body_data (pl_body payload))"
    by (simp add: pm_body_parseMessage parse_body_no_parts)
next
  assume "m_payload message = None"
  then show "pm_body (parseMessage message) = []"
    by (simp add: pm_body_parseMessage parseMessage_body_def)
next
  assume a: "m_payload message = Some payload \<and> no_data (pl_body payload)
      \<and> (\<forall>q \<in> set (or_empty (pl_parts payload)). no_data (p_body q))"
  show "pm_body (parseMessage message) = []"
  proof (cases "pl_parts payload")
    case None
    with a show ?thesis
      by (simp add: pm_body_parseMessage parse_body_no_parts data_text_no_data)
  next
    case (Some parts)
    with a have nd: "\<forall>q \<in> set parts. part_text q = []"
      by (simp add: or_empty_def part_text_def data_text_no_data)
    let ?c = "or_else (find (\<lambda>p. p_mimeType p = Some ''text/plain'') parts)
                      (find (\<lambda>p. p_mimeType p = Some ''text/html'') parts)"
    have "?c = None \<or> (\<exists>p \<in> set parts. ?c = Some p)"
    proof (cases ?c)
      case None
      then show ?thesis by simp
    next
      case (Some p)
      then have "p \<in> set parts"
        by (auto simp: or_else_def split: option.splits dest: find_Some_mem)
      with Some show ?thesis by simp
    qed
    with nd have "(case ?c of None \<Rightarrow> [] | Some p \<Rightarrow> part_text p) = []"
      by (auto split: option.splits)
    with a Some show ?thesis
      by (simp add: pm_body_parseMessage parse_body_parts)
  qed
next
  fix p :: message_part
  assume "no_data (p_body p)"
  then show "part_text p = []"
    by (simp add: part_text_def data_text_no_data)
next
  assume "m_payload message = Some payload \<and> pl_parts payload = Some []"
  then show "pm_body (parseMessage message) = []"
    by (simp add: pm_body_parseMessage parse_body_parts or_else_def)
next
  assume a: "m_payload message = Some payload \<and> pl_parts payload \<noteq> Some []"
  show "pm_body (parseMessage message) = spec_body payload"
  proof (cases "pl_parts payload")
    case None
    with a show ?thesis
      by (simp add: pm_body_parseMessage parse_body_no_parts spec_body_def has_sub_parts_def)
  next
    case (Some parts)
    with a have "parts \<noteq> []" by simp
    with a Some show ?thesis
      by (simp add: pm_body_parseMessage parse_body_parts spec_body_def has_sub_parts_def
          or_else_def or_empty_def split: option.splits)
  qed
qed

text \<open>
  A text/plain part is taken although a text/html part comes first; a text/html part
  is taken when no part is text/plain; the payload's own body is taken when there is no
  parts array; a plain part without data, a message without payload and an empty parts
  array give the empty body.
\<close>

theorem parseMessage_body_extraction_witness:
  "pm_body (parseMessage (message_with (Some (multipart_payload
      [sample_part ''text/html'' (Some ''PGI-aGk8L2I-''),
       sample_part ''text/plain'' (Some ''aGkgdGhlcmU'')])))) = ''hi there''
   \<and> pm_body (parseMessage (message_with (Some (multipart_payload
      [sample_part ''image/png'' None,
       sample_part ''text/html'' (Some ''PGI-aGk8L2I-'')])))) = ''<b>hi</b>''
   \<and> pm_body (parseMessage (message_with (Some (single_payload (Some ''aGkgdGhlcmU''))))) = ''hi there''
   \<and> pm_body (parseMessage (message_with (Some (multipart_payload
      [sample_part ''text/plain'' None,
       sample_part ''text/html'' (Some ''PGI-aGk8L2I-'')])))) = []
   \<and> pm_body (parseMessage (message_with None)) = []
   \<and> pm_body (parseMessage (message_with (Some (multipart_payload [])))) = []
   \<and> spec_body (multipart_payload
        [sample_part ''text/html'' (Some ''PGI-aGk8L2I-''),
         sample_part ''text/plain'' (Some ''aGkgdGhlcmU'')]) = ''hi there''"
proof -
  let ?html = "sample_part ''text/html'' (Some ''PGI-aGk8L2I-'')"
  let ?plain = "sample_part ''text/plain'' (Some ''aGkgdGhlcmU'')"
  let ?png = "sample_part ''image/png'' None"
  let ?bare = "sample_part ''text/plain'' None"
  have t: "part_text ?html = ''<b>hi</b>''" "part_text ?plain = ''hi there''"
    "part_text ?bare = []" "data_text (Some ''aGkgdGhlcmU'') = ''hi there''"
    by (simp_all add: part_text_def sample_part_def body_data_def data_text_def decode_samples)
  have m: "p_mimeType (sample_part mime d) = Some mime" for mime d
    by (simp add: sample_part_def)
  have pl: "m_payload (message_with x) = x" for x
    by (simp add: message_with_def)
  have mp: "pl_parts (multipart_payload ps) = Some ps" for ps
    by (simp add: multipart_payload_def)
  have sp: "pl_parts (single_payload d) = None" "body_data (pl_body (single_payload d)) = d" for d
    by (simp_all add: single_payload_def body_data_def)
  note a = parseMessage_body_extraction
    [where message = "message_with (Some (multipart_payload [?html, ?plain]))"
       and payload = "multipart_payload [?html, ?plain]"
       and pre = "[?html]" and tp = ?plain and post = "[]"]
  note b = parseMessage_body_extraction
    [where message = "message_with (Some (multipart_payload [?png, ?html]))"
       and payload = "multipart_payload [?png, ?html]"
       and pre = "[?png]" and tp = ?html and post = "[]"]
  note c = parseMessage_body_extraction
    [where message = "message_with (Some (single_payload (Some ''aGkgdGhlcmU'')))"
       and payload = "single_payload (Some ''aGkgdGhlcmU'')"]
  note d = parseMessage_body_extraction
    [where message = "message_with (Some (multipart_payload [?bare, ?html]))"
       and payload = "multipart_payload [?bare, ?html]"
       and pre = "[]" and tp = ?bare and post = "[?html]"]
  note e = parseMessage_body_extraction [where message = "message_with None"]
  from a have a': "pm_body (parseMessage (message_with (Some (multipart_payload [?html, ?plain]))))
      = ''hi there''"
    by (simp add: pl mp m t)
  from b have b': "pm_body (parseMessage (message_with (Some (multipart_payload [?png, ?html]))))
      = ''<b>hi</b>''"
    by (simp add: pl mp m t)
  from c have c': "pm_body (parseMessage (message_with (Some (single_payload (Some ''aGkgdGhlcmU'')))))
      = ''hi there''"
    by (simp add: pl sp t)
  from d have d': "pm_body (parseMessage (message_with (Some (multipart_payload [?bare, ?html]))))
      = []"
    by (simp add: pl mp m t)
  from e have e': "pm_body (parseMessage (message_with None)) = []"
    by (simp add: pl)
  note f = parseMessage_body_extraction
    [where message = "message_with (Some (multipart_payload []))"
       and payload = "multipart_payload []"]
  from f have f': "pm_body (parseMessage (message_with (Some (multipart_payload [])))) = []"
    by (simp add: pl mp)
  from a a' have g': "spec_body (multipart_payload [?html, ?plain]) = ''hi there''"
    by (simp add: pl mp)
  from a' b' c' d' e' f' g' show ?thesis by blast
qed

subsection \<open>Round trip of a plain-text message\<close>







subsection \<open>Boundary tokens and content\<close>

lemma underscore_in_tokens:
  "CHR ''_'' \<in> set (boundary_token n)" "CHR ''_'' \<in> set (altBoundary_token n)"
  by (simp_all add: boundary_token_def altBoundary_token_def)

lemma tokens_differ: "boundary_token n \<noteq> altBoundary_token m"
  by (simp add: boundary_token_def altBoundary_token_def)

lemma underscore_not_base64: "\<not> is_base64_char CHR ''_''"
  by (simp add: is_base64_char_def)

lemma base64_text_underscore_free: "base64_text s \<Longrightarrow> underscore_free s"
  using underscore_not_base64 by (auto simp: base64_text_def underscore_free_def list_all_iff)

lemma underscore_free_excludes:
  assumes "underscore_free l" "CHR ''_'' \<in> set b"
  shows "\<not> includes_str l b"
proof
  assume "includes_str l b"
  then have "set b \<subseteq> set l"
    by (simp add: includes_str_def set_mono_sublist)
  with assms show False
    by (auto simp: underscore_free_def)
qed

lemma underscore_free_toBase64: "underscore_free (toBase64 s)"
  by (rule base64_text_underscore_free) (simp add: base64_text_def list_all_iff toBase64_alphabet)

lemma content_lines_underscore_free:
  assumes "\<forall>a \<in> set (or_empty (o_attachments options)). underscore_free (content a)"
  shows "\<forall>l \<in> set (content_lines options). underscore_free l"
  using assms by (auto simp: content_lines_def underscore_free_toBase64)

lemma route_content_lines_underscore_free:
  assumes "\<forall>a \<in> set (r_attachments options). underscore_free (content a)"
  shows "\<forall>l \<in> set (route_content_lines options). underscore_free l"
  using assms by (auto simp: route_content_lines_def underscore_free_toBase64)

lemma emitted_tokens:
  "distinct (emitted_boundaries now1 now2 options)"
  "\<forall>b \<in> set (emitted_boundaries now1 now2 options). CHR ''_'' \<in> set b"
  by (auto simp: emitted_boundaries_def tokens_differ underscore_in_tokens)

lemma content_free:
  assumes "distinct tokens" "\<forall>b \<in> set tokens. CHR ''_'' \<in> set b"
    and "\<forall>l \<in> set lines. underscore_free l"
  shows "boundaries_content_free tokens lines"
  using assms by (auto simp: boundaries_content_free_def list_all_iff underscore_free_excludes)

lemma content_lines_emitted:
  "set (content_lines options) \<subseteq> set (buildRawEmail_lines now1 now2 options)"
proof (cases "truthy_len (o_attachments options)")
  case True
  then obtain atts where atts: "o_attachments options = Some atts" "atts \<noteq> []"
    by (auto simp: truthy_len_def split: option.splits)
  show ?thesis
    unfolding lines_with_attachments [OF atts]
    using atts
    by (auto simp: content_lines_def or_empty_def truthy_str_def multipart_body_def body_part_def
        text_part_def alternative_group_def attachment_part_def split: option.splits)
next
  case False
  then have none: "or_empty (o_attachments options) = []"
    by (auto simp: truthy_len_def or_empty_def split: option.splits)
  show ?thesis
  proof (cases "truthy_str (o_htmlBody options)")
    case True
    then obtain html where html: "o_htmlBody options = Some html" "html \<noteq> []"
      by (auto simp: truthy_str_def split: option.splits)
    show ?thesis
      unfolding lines_alternative [OF False html]
      using html none
      by (simp add: content_lines_def truthy_str_def or_empty_def alternative_group_def)
  next
    case h: False
    show ?thesis
      unfolding lines_plain [OF False h]
      using h none by (simp add: content_lines_def text_part_def)
  qed
qed

text \<open>
  Claim C2, as stated, fails: an attachment's content is pushed as it is given, so a
  content string that contains the outer boundary makes the token occur inside a content
  line. With the clock at 5 the token is \<open>boundary_5\<close>, and an attachment whose content
  is the string \<open>boundary_5\<close> (a string over the URL-safe base64 alphabet) collides.
\<close>

theorem boundary_in_attachment_content:
  "\<not> boundaries_content_free
       (emitted_boundaries 5 6
          (sample_options None
             (Some [\<lparr>filename = ''a.txt'', mimeType = ''text/plain'', content = ''boundary_5''\<rparr>])))
       (content_lines
          (sample_options None
             (Some [\<lparr>filename = ''a.txt'', mimeType = ''text/plain'', content = ''boundary_5''\<rparr>])))"
  by (simp add: boundaries_content_free_def emitted_boundaries_def content_lines_def
      sample_options_def truthy_len_def truthy_str_def or_empty_def boundary_token_def
      show_nat_digit includes_str_def)

text \<open>
  Claim C2, amended. The outer and the nested boundary are never equal, and neither
  occurs in a body line, which is base64 text. Neither occurs in an attachment's content
  line provided the content holds no underscore, as is the case for base64 text
  (letters, digits, \<open>+\<close>, \<open>/\<close>, \<open>=\<close>), which the attachment's \<open>content\<close> field is
  documented to be: every token contains an underscore. The encoder does not check the
  content. The same holds for the webhook's encoder and its single boundary. Every
  content line is a line of the encoder's output.
\<close>

theorem boundaries_free_when_no_underscore:
  "boundary_token now1 \<noteq> altBoundary_token now2
   \<and> ((\<forall>a \<in> set (or_empty (o_attachments options)). underscore_free (content a)) \<longrightarrow>
        boundaries_content_free (emitted_boundaries now1 now2 options) (content_lines options))
   \<and> ((\<forall>a \<in> set (r_attachments ropts). underscore_free (content a)) \<longrightarrow>
        boundaries_content_free [boundary_token now] (route_content_lines ropts))
   \<and> (\<forall>s. base64_text s \<longrightarrow> underscore_free s)
   \<and> set (content_lines options) \<subseteq> set (buildRawEmail_lines now1 now2 options)
   \<and> set (route_content_lines ropts) \<subseteq> set (buildRawEmail_route_lines now ropts)"
proof (intro conjI impI allI)
  show "boundary_token now1 \<noteq> altBoundary_token now2"
    by (rule tokens_differ)
next
  assume "\<forall>a \<in> set (or_empty (o_attachments options)). underscore_free (content a)"
  then have "\<forall>l \<in> set (content_lines options). underscore_free l"
    by (rule content_lines_underscore_free)
  with emitted_tokens [of now1 now2 options]
  show "boundaries_content_free (emitted_boundaries now1 now2 options) (content_lines options)"
    by (intro content_free)
next
  assume "\<forall>a \<in> set (r_attachments ropts). underscore_free (content a)"
  then have "\<forall>l \<in> set (route_content_lines ropts). underscore_free l"
    by (rule route_content_lines_underscore_free)
  then show "boundaries_content_free [boundary_token now] (route_content_lines ropts)"
    by (intro content_free) (simp_all add: underscore_in_tokens)
next
  fix s
  assume "base64_text s"
  then show "underscore_free s"
    by (rule base64_text_underscore_free)
next
  show "set (content_lines options) \<subseteq> set (buildRawEmail_lines now1 now2 options)"
    by (rule content_lines_emitted)
next
  show "set (route_content_lines ropts) \<subseteq> set (buildRawEmail_route_lines now ropts)"
    unfolding route_lines
    by (auto simp: route_content_lines_def multipart_body_def text_part_def attachment_part_def)
qed

theorem boundaries_free_when_no_underscore_witness:
  "base64_text (content sample_attachment)
   \<and> underscore_free (content sample_attachment)
   \<and> emitted_boundaries 5 6 (sample_options (Some ''<b>hi</b>'') (Some [sample_attachment]))
       = [''boundary_5'', ''alt_boundary_6'']
   \<and> content_lines (sample_options (Some ''<b>hi</b>'') (Some [sample_attachment]))
       = [''aGkgdGhlcmU='', ''PGI+aGk8L2I+'', ''QUJD'']
   \<and> boundaries_content_free [''boundary_5'', ''alt_boundary_6'']
       [''aGkgdGhlcmU='', ''PGI+aGk8L2I+'', ''QUJD'']
   \<and> boundaries_content_free [''boundary_5'']
       (route_content_lines
          \<lparr>r_to = ''a@b.com'', r_subject = ''Hi'', r_body = ''hi there'',
           r_attachments = [sample_attachment]\<rparr>)"
proof -
  let ?S = "sample_options (Some ''<b>hi</b>'') (Some [sample_attachment])"
  let ?R = "\<lparr>r_to = ''a@b.com'', r_subject = ''Hi'', r_body = ''hi there'',
             r_attachments = [sample_attachment]\<rparr>"
  note t = boundaries_free_when_no_underscore [of 5 6 ?S ?R 5]
  have b: "base64_text (content sample_attachment)"
    by (simp add: base64_text_def sample_attachment_def is_base64_char_def)
  with t have u: "underscore_free (content sample_attachment)"
    by blast
  then have h: "\<forall>a \<in> set (or_empty (o_attachments ?S)). underscore_free (content a)"
    "\<forall>a \<in> set (r_attachments ?R). underscore_free (content a)"
    by (simp_all add: sample_options_def or_empty_def)
  have e: "emitted_boundaries 5 6 ?S = [''boundary_5'', ''alt_boundary_6'']"
    by (simp add: emitted_boundaries_def sample_options_def truthy_len_def truthy_str_def
        boundary_token_def altBoundary_token_def show_nat_digit)
  have c: "content_lines ?S = [''aGkgdGhlcmU='', ''PGI+aGk8L2I+'', ''QUJD'']"
    by (simp add: content_lines_def sample_options_def sample_attachment_def truthy_str_def
        or_empty_def b64_char_def char_of_def bit_Suc_0_iff)
  have k: "boundary_token 5 = ''boundary_5''"
    by (simp add: boundary_token_def show_nat_digit)
  from t h
  have "boundaries_content_free (emitted_boundaries 5 6 ?S) (content_lines ?S)"
    and "boundaries_content_free [boundary_token 5] (route_content_lines ?R)"
    by blast+
  with b u e c k show ?thesis by simp
qed

subsection \<open>Attachments\<close>

text \<open>
  Claim C4, as the claim states it, fails: the encoder writes an attachment's content as
  a line of the message without looking at it. With the clock at 5, the attachment
  \<open>r.pdf\<close> whose content is the text \<open>--boundary_5\<close> gives a message in which the
  delimiter line of the outer boundary occurs three times before the closing delimiter:
  the message has one attachment and the body-bearing part is followed by two further
  parts, the second one empty.
\<close>

theorem delimiter_line_in_attachment_content:
  \<open>o_attachments (sample_options None
       (Some [\<lparr>filename = ''r.pdf'', mimeType = ''application/pdf'', content = ''--boundary_5''\<rparr>]))
     = Some [\<lparr>filename = ''r.pdf'', mimeType = ''application/pdf'', content = ''--boundary_5''\<rparr>]
   \<and> message_lines (buildRawEmail 5 6 (sample_options None
       (Some [\<lparr>filename = ''r.pdf'', mimeType = ''application/pdf'', content = ''--boundary_5''\<rparr>])))
     = [''To: a@b.com'',
        ''Subject: =?UTF-8?B?SGk=?='',
        ''MIME-Version: 1.0'',
        ''Content-Type: multipart/mixed; boundary="boundary_5"'',
        '''',
        ''--boundary_5'',
        ''Content-Type: text/plain; charset="UTF-8"'',
        ''Content-Transfer-Encoding: base64'',
        '''',
        ''aGkgdGhlcmU='',
        ''--boundary_5'',
        ''Content-Type: application/pdf; name="r.pdf"'',
        ''Content-Transfer-Encoding: base64'',
        ''Content-Disposition: attachment; filename="r.pdf"'',
        '''',
        ''--boundary_5'',
        ''--boundary_5--'']
   \<and> part_count ''boundary_5'' (buildRawEmail 5 6 (sample_options None
       (Some [\<lparr>filename = ''r.pdf'', mimeType = ''application/pdf'', content = ''--boundary_5''\<rparr>])))
     = 3\<close>
proof -
  define att where
    "att = \<lparr>filename = ''r.pdf'', mimeType = ''application/pdf'', content = ''--boundary_5''\<rparr>"
  let ?S = "sample_options None (Some [att])"
  have h: "o_attachments ?S = Some [att]" "[att] \<noteq> []"
    by (simp_all add: sample_options_def)
  have l: \<open>buildRawEmail_lines 5 6 ?S
    = [''To: a@b.com'',
       ''Subject: =?UTF-8?B?SGk=?='',
       ''MIME-Version: 1.0'',
       ''Content-Type: multipart/mixed; boundary="boundary_5"'',
       '''',
       ''--boundary_5'',
       ''Content-Type: text/plain; charset="UTF-8"'',
       ''Content-Transfer-Encoding: base64'',
       '''',
       ''aGkgdGhlcmU='',
       ''--boundary_5'',
       ''Content-Type: application/pdf; name="r.pdf"'',
       ''Content-Transfer-Encoding: base64'',
       ''Content-Disposition: attachment; filename="r.pdf"'',
       '''',
       ''--boundary_5'',
       ''--boundary_5--'']\<close>
    unfolding lines_with_attachments [OF h]
    by (simp add: sample_options_def att_def header_lines_def opt_header_def
        list_header_def mixed_header_def multipart_body_def body_part_def text_part_def
        attachment_part_def boundary_token_def show_nat_digit b64_char_def char_of_def
        bit_Suc_0_iff)
  have c: "\<forall>l \<in> set (buildRawEmail_lines 5 6 ?S). single_line l"
    unfolding l by simp
  note m = message_lines_clean [OF c, unfolded l]
  have p: "part_count ''boundary_5'' (buildRawEmail 5 6 ?S) = 3"
    unfolding part_count_def m by simp
  from h(1) m p show ?thesis
    unfolding att_def by simp
qed

text \<open>
  Claim C4, amended. Let the attachment list be non-empty, let no header field hold a
  carriage return, and let every attachment be clean: a name, a type and a content
  without carriage return, and a content that does not begin with \<open>--\<close>, as base64
  text never does. Then the lines of the produced message are: the
  header block; the \<open>multipart/mixed\<close> declaration with the outer boundary and the empty
  line; the delimiter line and the body-bearing part; for each attachment, in input
  order, the delimiter line and the attachment's part; the closing delimiter. The
  delimiter line occurs once for the body-bearing part and once for each attachment.
  The six lines of attachment number \<open>i\<close> start \<open>6 * i\<close> lines after the body-bearing
  part: the delimiter, the Content-Type line with the attachment's mimeType and
  filename, the transfer encoding, the Content-Disposition line with the filename, the
  empty line and the content. The webhook's encoder gives the same layout after its
  three header lines, with a plain text part as the body-bearing part.
\<close>

theorem attachments_one_part_each:
  assumes "o_attachments options = Some atts" "atts \<noteq> []"
    and "clean_headers options" "\<forall>a \<in> set atts. clean_attachment a"
  shows \<open>message_lines (buildRawEmail now1 now2 options)
       = header_lines options
         @ [''Content-Type: multipart/mixed; boundary="'' @ boundary_token now1 @ ''"'',
            '''',
            ''--'' @ boundary_token now1]
         @ body_part (altBoundary_token now2) options
         @ concat (map (\<lambda>a. (''--'' @ boundary_token now1) # attachment_part a) atts)
         @ [''--'' @ boundary_token now1 @ ''--'']
    \<and> part_count (boundary_token now1) (buildRawEmail now1 now2 options) = 1 + length atts
    \<and> (\<forall>i < length atts.
          take 6 (drop (length (header_lines options) + 3
                        + length (body_part (altBoundary_token now2) options) + 6 * i)
                    (message_lines (buildRawEmail now1 now2 options)))
            = [''--'' @ boundary_token now1,
               ''Content-Type: '' @ mimeType (atts ! i) @ ''; name="'' @ filename (atts ! i) @ ''"'',
               ''Content-Transfer-Encoding: base64'',
               ''Content-Disposition: attachment; filename="'' @ filename (atts ! i) @ ''"'',
               '''',
               content (atts ! i)])
    \<and> (single_line t \<longrightarrow>
          message_lines
            (buildRawEmail_route now \<lparr>r_to = t, r_subject = s, r_body = b, r_attachments = atts\<rparr>)
            = [''To: '' @ t,
               ''Subject: =?UTF-8?B?'' @ toBase64 s @ ''?='',
               ''MIME-Version: 1.0'',
               ''Content-Type: multipart/mixed; boundary="'' @ boundary_token now @ ''"'',
               '''',
               ''--'' @ boundary_token now,
               ''Content-Type: text/plain; charset="UTF-8"'',
               ''Content-Transfer-Encoding: base64'',
               '''',
               toBase64 b]
              @ concat (map (\<lambda>a. (''--'' @ boundary_token now) # attachment_part a) atts)
              @ [''--'' @ boundary_token now @ ''--'']
          \<and> part_count (boundary_token now)
               (buildRawEmail_route now \<lparr>r_to = t, r_subject = s, r_body = b, r_attachments = atts\<rparr>)
              = 1 + length atts)\<close>
proof -
  let ?B = "boundary_token now1"
  let ?body = "body_part (altBoundary_token now2) options"
  let ?m = "message_lines (buildRawEmail now1 now2 options)"
  note m = mixed_message_lines [OF assms, of now1 now2]
  have dashes: "\<forall>a \<in> set atts. take 2 (content a) \<noteq> ''--''"
    using assms(4) by (simp add: clean_attachment_def)
  have a: \<open>?m = header_lines options
         @ [''Content-Type: multipart/mixed; boundary="'' @ ?B @ ''"'', '''', ''--'' @ ?B]
         @ ?body
         @ concat (map (\<lambda>a. (''--'' @ ?B) # attachment_part a) atts)
         @ [''--'' @ ?B @ ''--'']\<close>
    unfolding m by (simp add: mixed_header_def multipart_body_def comp_def)
  have b: "part_count ?B (buildRawEmail now1 now2 options) = 1 + length atts"
    unfolding part_count_def m
    by (rule mixed_part_count [OF dashes])
      (use header_no_delimiter body_part_no_delimiter [of now1 _ now2 options] in simp_all)
  have c: \<open>take 6 (drop (length (header_lines options) + 3 + length ?body + 6 * i) ?m)
            = [''--'' @ ?B,
               ''Content-Type: '' @ mimeType (atts ! i) @ ''; name="'' @ filename (atts ! i) @ ''"'',
               ''Content-Transfer-Encoding: base64'',
               ''Content-Disposition: attachment; filename="'' @ filename (atts ! i) @ ''"'',
               '''',
               content (atts ! i)]\<close> if i: "i < length atts" for i
  proof -
    define pre where
      \<open>pre = header_lines options
         @ [''Content-Type: multipart/mixed; boundary="'' @ ?B @ ''"'', '''', ''--'' @ ?B]
         @ ?body\<close>
    define rest where
      "rest = concat (map (\<lambda>p. (''--'' @ ?B) # p) (map attachment_part atts)) @ [''--'' @ ?B @ ''--'']"
    have len: "length pre = length (header_lines options) + 3 + length ?body"
      by (simp add: pre_def)
    have whole: "?m = pre @ rest"
      unfolding a by (simp add: pre_def rest_def comp_def)
    have "drop (length (header_lines options) + 3 + length ?body + 6 * i) ?m = drop (6 * i) rest"
      unfolding whole len [symmetric] by simp
    with attachment_block [OF i, of "''--'' @ ?B" "[''--'' @ ?B @ ''--'']"] show ?thesis
      by (simp add: rest_def attachment_part_def)
  qed
  have d: \<open>message_lines
            (buildRawEmail_route now \<lparr>r_to = t, r_subject = s, r_body = b, r_attachments = atts\<rparr>)
            = [''To: '' @ t,
               ''Subject: =?UTF-8?B?'' @ toBase64 s @ ''?='',
               ''MIME-Version: 1.0'',
               ''Content-Type: multipart/mixed; boundary="'' @ boundary_token now @ ''"'',
               '''',
               ''--'' @ boundary_token now,
               ''Content-Type: text/plain; charset="UTF-8"'',
               ''Content-Transfer-Encoding: base64'',
               '''',
               toBase64 b]
              @ concat (map (\<lambda>a. (''--'' @ boundary_token now) # attachment_part a) atts)
              @ [''--'' @ boundary_token now @ ''--'']
          \<and> part_count (boundary_token now)
               (buildRawEmail_route now \<lparr>r_to = t, r_subject = s, r_body = b, r_attachments = atts\<rparr>)
              = 1 + length atts\<close> if t: "single_line t"
  proof -
    let ?R = "\<lparr>r_to = t, r_subject = s, r_body = b, r_attachments = atts\<rparr>"
    have r: "message_lines (buildRawEmail_route now ?R)
       = route_header_lines ?R @ mixed_header (boundary_token now)
         @ multipart_body (boundary_token now) (text_part ''plain'' b # map attachment_part atts)"
      using route_message_lines [of ?R now] t assms(4) by simp
    have r1: \<open>message_lines (buildRawEmail_route now ?R)
            = [''To: '' @ t,
               ''Subject: =?UTF-8?B?'' @ toBase64 s @ ''?='',
               ''MIME-Version: 1.0'',
               ''Content-Type: multipart/mixed; boundary="'' @ boundary_token now @ ''"'',
               '''',
               ''--'' @ boundary_token now,
               ''Content-Type: text/plain; charset="UTF-8"'',
               ''Content-Transfer-Encoding: base64'',
               '''',
               toBase64 b]
              @ concat (map (\<lambda>a. (''--'' @ boundary_token now) # attachment_part a) atts)
              @ [''--'' @ boundary_token now @ ''--'']\<close>
      unfolding r
      by (simp add: route_header_lines_def mixed_header_def multipart_body_def text_part_def comp_def)
    have r2: "part_count (boundary_token now) (buildRawEmail_route now ?R) = 1 + length atts"
      unfolding part_count_def r
      by (rule mixed_part_count [OF dashes])
        (use route_header_no_delimiter text_part_no_delimiter in simp_all)
    from r1 r2 show ?thesis by (rule conjI)
  qed
  from a b c d show ?thesis by blast
qed

text \<open>
  The scenario of the specification: one plain body \<open>hi there\<close> and the attachment
  \<open>r.pdf\<close> of type \<open>application/pdf\<close>, sent through the tool server's encoder and
  through the webhook's.
\<close>

theorem attachments_one_part_each_witness:
  \<open>message_lines (buildRawEmail 5 6 (sample_options None (Some [sample_attachment])))
     = [''To: a@b.com'',
        ''Subject: =?UTF-8?B?SGk=?='',
        ''MIME-Version: 1.0'',
        ''Content-Type: multipart/mixed; boundary="boundary_5"'',
        '''',
        ''--boundary_5'',
        ''Content-Type: text/plain; charset="UTF-8"'',
        ''Content-Transfer-Encoding: base64'',
        '''',
        ''aGkgdGhlcmU='',
        ''--boundary_5'',
        ''Content-Type: application/pdf; name="r.pdf"'',
        ''Content-Transfer-Encoding: base64'',
        ''Content-Disposition: attachment; filename="r.pdf"'',
        '''',
        ''QUJD'',
        ''--boundary_5--'']
   \<and> part_count ''boundary_5'' (buildRawEmail 5 6 (sample_options None (Some [sample_attachment]))) = 2
   \<and> part_count ''boundary_5''
        (buildRawEmail_route 5
           \<lparr>r_to = ''a@b.com'', r_subject = ''Hi'', r_body = ''hi there'',
            r_attachments = [sample_attachment]\<rparr>) = 2
   \<and> o_attachments (sample_options None (Some [sample_attachment])) = Some [sample_attachment]
   \<and> clean_headers (sample_options None (Some [sample_attachment]))
   \<and> clean_attachment sample_attachment\<close>
proof -
  let ?S = "sample_options None (Some [sample_attachment])"
  have h: "o_attachments ?S = Some [sample_attachment]" "[sample_attachment] \<noteq> []"
    "clean_headers ?S" "\<forall>a \<in> set [sample_attachment]. clean_attachment a"
    by (simp_all add: sample_options_def clean_headers_def or_empty_def clean_attachment_def
        sample_attachment_def)
  have t: "single_line ''a@b.com''"
    by simp
  have l: \<open>header_lines ?S
      @ [''Content-Type: multipart/mixed; boundary="'' @ boundary_token 5 @ ''"'', '''',
         ''--'' @ boundary_token 5]
      @ body_part (altBoundary_token 6) ?S
      @ concat (map (\<lambda>a. (''--'' @ boundary_token 5) # attachment_part a) [sample_attachment])
      @ [''--'' @ boundary_token 5 @ ''--'']
    = [''To: a@b.com'',
       ''Subject: =?UTF-8?B?SGk=?='',
       ''MIME-Version: 1.0'',
       ''Content-Type: multipart/mixed; boundary="boundary_5"'',
       '''',
       ''--boundary_5'',
       ''Content-Type: text/plain; charset="UTF-8"'',
       ''Content-Transfer-Encoding: base64'',
       '''',
       ''aGkgdGhlcmU='',
       ''--boundary_5'',
       ''Content-Type: application/pdf; name="r.pdf"'',
       ''Content-Transfer-Encoding: base64'',
       ''Content-Disposition: attachment; filename="r.pdf"'',
       '''',
       ''QUJD'',
       ''--boundary_5--'']\<close>
    by (simp add: sample_options_def sample_attachment_def header_lines_def opt_header_def
        list_header_def body_part_def text_part_def attachment_part_def boundary_token_def
        show_nat_digit b64_char_def char_of_def bit_Suc_0_iff)
  have b5: "boundary_token 5 = ''boundary_5''"
    by (simp add: boundary_token_def show_nat_digit)
  note inst = attachments_one_part_each [OF h, of 5 6 "''a@b.com''" 5 "''Hi''" "''hi there''"]
  from inst have a: \<open>message_lines (buildRawEmail 5 6 ?S)
      = header_lines ?S
      @ [''Content-Type: multipart/mixed; boundary="'' @ boundary_token 5 @ ''"'', '''',
         ''--'' @ boundary_token 5]
      @ body_part (altBoundary_token 6) ?S
      @ concat (map (\<lambda>a. (''--'' @ boundary_token 5) # attachment_part a) [sample_attachment])
      @ [''--'' @ boundary_token 5 @ ''--'']\<close>
    by blast
  from inst have b: "part_count (boundary_token 5) (buildRawEmail 5 6 ?S) = 1 + length [sample_attachment]"
    by blast
  from inst t have c: "part_count (boundary_token 5)
        (buildRawEmail_route 5
           \<lparr>r_to = ''a@b.com'', r_subject = ''Hi'', r_body = ''hi there'',
            r_attachments = [sample_attachment]\<rparr>) = 1 + length [sample_attachment]"
    by blast
  from a [unfolded l] b [unfolded b5] c [unfolded b5] h(1,3,4) show ?thesis
    by simp
qed

subsection \<open>Plain text before HTML\<close>

lemma lines_text_Cons: "ls \<noteq> [] \<Longrightarrow> lines_text (l # ls) = l @ CHR 0x0D # CHR 0x0A # lines_text ls"
  by (simp add: lines_text_def)

lemma split_crlf_prefix:
  "\<forall>l \<in> set pre. single_line l \<Longrightarrow> rest \<noteq> []
     \<Longrightarrow> split_crlf (lines_text (pre @ rest)) = pre @ split_crlf (lines_text rest)"
  by (induction pre) (simp_all add: lines_text_Cons split_crlf_line)

lemma alternative_lines_clean:
  assumes "\<not> truthy_len (o_attachments options)" "o_htmlBody options = Some html" "html \<noteq> []"
    and "clean_headers options"
  shows "\<forall>l \<in> set (buildRawEmail_lines now1 now2 options). single_line l"
  unfolding lines_alternative [OF assms(1-3)]
  using header_lines_single [OF assms(4)] alternative_single(2) [of _ now1 "o_body options" html]
  by auto

text \<open>
  Claim C5. Let the message have a non-empty HTML body. Without attachments the
  produced message, base64url-decoded, is the text of these lines: the header block, the
  \<open>multipart/alternative\<close> declaration with the outer boundary, the empty line, then
  the \<open>text/plain\<close> part, then the \<open>text/html\<close> part, then the closing delimiter. With
  attachments it is the text of: the header block, the \<open>multipart/mixed\<close> declaration,
  the outer delimiter, the \<open>multipart/alternative\<close> declaration with the nested
  boundary, the \<open>text/plain\<close> part, then the \<open>text/html\<close> part, the closing delimiter of
  the nested boundary, and then the attachment parts. When no header field holds a
  carriage return, these are the lines that splitting the message at CRLF gives: all of
  them without attachments, and with attachments the header block and the sixteen lines
  that follow it, whatever the attachments hold.
\<close>

theorem plain_before_html:
  assumes "o_htmlBody options = Some html" "html \<noteq> []"
  shows \<open>(\<not> truthy_len (o_attachments options) \<longrightarrow>
          fromBase64 (buildRawEmail now1 now2 options)
            = lines_text (header_lines options
                @ [''Content-Type: multipart/alternative; boundary="'' @ boundary_token now1 @ ''"'',
                   '''',
                   ''--'' @ boundary_token now1,
                   ''Content-Type: text/plain; charset="UTF-8"'',
                   ''Content-Transfer-Encoding: base64'',
                   '''',
                   toBase64 (o_body options),
                   ''--'' @ boundary_token now1,
                   ''Content-Type: text/html; charset="UTF-8"'',
                   ''Content-Transfer-Encoding: base64'',
                   '''',
                   toBase64 html,
                   ''--'' @ boundary_token now1 @ ''--''])
          \<and> (clean_headers options \<longrightarrow>
                message_lines (buildRawEmail now1 now2 options)
                  = header_lines options
                    @ [''Content-Type: multipart/alternative; boundary="'' @ boundary_token now1 @ ''"'',
                       '''',
                       ''--'' @ boundary_token now1,
                       ''Content-Type: text/plain; charset="UTF-8"'',
                       ''Content-Transfer-Encoding: base64'',
                       '''',
                       toBase64 (o_body options),
                       ''--'' @ boundary_token now1,
                       ''Content-Type: text/html; charset="UTF-8"'',
                       ''Content-Transfer-Encoding: base64'',
                       '''',
                       toBase64 html,
                       ''--'' @ boundary_token now1 @ ''--'']))
    \<and> (\<forall>atts. o_attachments options = Some atts \<and> atts \<noteq> [] \<longrightarrow>
          fromBase64 (buildRawEmail now1 now2 options)
            = lines_text (header_lines options
                @ [''Content-Type: multipart/mixed; boundary="'' @ boundary_token now1 @ ''"'',
                   '''',
                   ''--'' @ boundary_token now1,
                   ''Content-Type: multipart/alternative; boundary="'' @ altBoundary_token now2 @ ''"'',
                   '''',
                   ''--'' @ altBoundary_token now2,
                   ''Content-Type: text/plain; charset="UTF-8"'',
                   ''Content-Transfer-Encoding: base64'',
                   '''',
                   toBase64 (o_body options),
                   ''--'' @ altBoundary_token now2,
                   ''Content-Type: text/html; charset="UTF-8"'',
                   ''Content-Transfer-Encoding: base64'',
                   '''',
                   toBase64 html,
                   ''--'' @ altBoundary_token now2 @ ''--'']
                @ concat (map (\<lambda>a. (''--'' @ boundary_token now1) # attachment_part a) atts)
                @ [''--'' @ boundary_token now1 @ ''--''])
          \<and> (clean_headers options \<longrightarrow>
                take (length (header_lines options) + 16)
                  (message_lines (buildRawEmail now1 now2 options))
                  = header_lines options
                    @ [''Content-Type: multipart/mixed; boundary="'' @ boundary_token now1 @ ''"'',
                       '''',
                       ''--'' @ boundary_token now1,
                       ''Content-Type: multipart/alternative; boundary="'' @ altBoundary_token now2 @ ''"'',
                       '''',
                       ''--'' @ altBoundary_token now2,
                       ''Content-Type: text/plain; charset="UTF-8"'',
                       ''Content-Transfer-Encoding: base64'',
                       '''',
                       toBase64 (o_body options),
                       ''--'' @ altBoundary_token now2,
                       ''Content-Type: text/html; charset="UTF-8"'',
                       ''Content-Transfer-Encoding: base64'',
                       '''',
                       toBase64 html,
                       ''--'' @ altBoundary_token now2 @ ''--'']))\<close>
proof -
  let ?B = "boundary_token now1"
  let ?A = "altBoundary_token now2"
  let ?out = "buildRawEmail now1 now2 options"
  define top where
    \<open>top = [''Content-Type: multipart/alternative; boundary="'' @ ?B @ ''"'',
            '''',
            ''--'' @ ?B,
            ''Content-Type: text/plain; charset="UTF-8"'',
            ''Content-Transfer-Encoding: base64'',
            '''',
            toBase64 (o_body options),
            ''--'' @ ?B,
            ''Content-Type: text/html; charset="UTF-8"'',
            ''Content-Transfer-Encoding: base64'',
            '''',
            toBase64 html,
            ''--'' @ ?B @ ''--'']\<close>
  define nested where
    \<open>nested = [''Content-Type: multipart/mixed; boundary="'' @ ?B @ ''"'',
               '''',
               ''--'' @ ?B,
               ''Content-Type: multipart/alternative; boundary="'' @ ?A @ ''"'',
               '''',
               ''--'' @ ?A,
               ''Content-Type: text/plain; charset="UTF-8"'',
               ''Content-Transfer-Encoding: base64'',
               '''',
               toBase64 (o_body options),
               ''--'' @ ?A,
               ''Content-Type: text/html; charset="UTF-8"'',
               ''Content-Transfer-Encoding: base64'',
               '''',
               toBase64 html,
               ''--'' @ ?A @ ''--'']\<close>
  have a: "fromBase64 ?out = lines_text (header_lines options @ top)"
    and b: "clean_headers options \<longrightarrow> message_lines ?out = header_lines options @ top"
    if n: "\<not> truthy_len (o_attachments options)"
  proof -
    have l: "buildRawEmail_lines now1 now2 options = header_lines options @ top"
      unfolding lines_alternative [OF n assms]
      by (simp add: top_def alternative_header_def alternative_group_def)
    show "fromBase64 ?out = lines_text (header_lines options @ top)"
      unfolding raw_message l ..
    show "clean_headers options \<longrightarrow> message_lines ?out = header_lines options @ top"
    proof
      assume "clean_headers options"
      from message_lines_clean [OF alternative_lines_clean [OF n assms this]] l
      show "message_lines ?out = header_lines options @ top" by simp
    qed
  qed
  have c: "fromBase64 ?out
      = lines_text (header_lines options @ nested
          @ concat (map (\<lambda>a. (''--'' @ ?B) # attachment_part a) atts) @ [''--'' @ ?B @ ''--''])"
    and d: "clean_headers options \<longrightarrow>
      take (length (header_lines options) + 16) (message_lines ?out) = header_lines options @ nested"
    if s: "o_attachments options = Some atts \<and> atts \<noteq> []" for atts
  proof -
    define rest where
      "rest = concat (map (\<lambda>a. (''--'' @ ?B) # attachment_part a) atts) @ [''--'' @ ?B @ ''--'']"
    from s have s1: "o_attachments options = Some atts" and s2: "atts \<noteq> []"
      by simp_all
    have l: "buildRawEmail_lines now1 now2 options = (header_lines options @ nested) @ rest"
      unfolding lines_with_attachments [OF s1 s2]
      using assms
      by (simp add: nested_def rest_def mixed_header_def multipart_body_def body_part_def
          alternative_header_def alternative_group_def comp_def)
    show "fromBase64 ?out
      = lines_text (header_lines options @ nested
          @ concat (map (\<lambda>a. (''--'' @ ?B) # attachment_part a) atts) @ [''--'' @ ?B @ ''--''])"
      unfolding raw_message l by (simp add: rest_def)
    show "clean_headers options \<longrightarrow>
      take (length (header_lines options) + 16) (message_lines ?out) = header_lines options @ nested"
    proof
      assume h: "clean_headers options"
      have pre: "\<forall>l \<in> set (header_lines options @ nested). single_line l"
        using header_lines_single [OF h] by (auto simp: nested_def)
      have "rest \<noteq> []"
        by (simp add: rest_def)
      from split_crlf_prefix [OF pre this]
      have "message_lines ?out = (header_lines options @ nested) @ split_crlf (lines_text rest)"
        by (simp add: message_lines_def raw_message l)
      moreover have "length (header_lines options @ nested) = length (header_lines options) + 16"
        by (simp add: nested_def)
      ultimately show
        "take (length (header_lines options) + 16) (message_lines ?out) = header_lines options @ nested"
        by (metis append_eq_conv_conj)
    qed
  qed
  from a b c d show ?thesis
    unfolding top_def nested_def by blast
qed

theorem plain_before_html_witness:
  \<open>message_lines (buildRawEmail 5 6 (sample_options (Some ''<b>hi</b>'') None))
     = [''To: a@b.com'',
        ''Subject: =?UTF-8?B?SGk=?='',
        ''MIME-Version: 1.0'',
        ''Content-Type: multipart/alternative; boundary="boundary_5"'',
        '''',
        ''--boundary_5'',
        ''Content-Type: text/plain; charset="UTF-8"'',
        ''Content-Transfer-Encoding: base64'',
        '''',
        ''aGkgdGhlcmU='',
        ''--boundary_5'',
        ''Content-Type: text/html; charset="UTF-8"'',
        ''Content-Transfer-Encoding: base64'',
        '''',
        ''PGI+aGk8L2I+'',
        ''--boundary_5--'']
   \<and> take 19 (message_lines
        (buildRawEmail 5 6 (sample_options (Some ''<b>hi</b>'') (Some [sample_attachment]))))
     = [''To: a@b.com'',
        ''Subject: =?UTF-8?B?SGk=?='',
        ''MIME-Version: 1.0'',
        ''Content-Type: multipart/mixed; boundary="boundary_5"'',
        '''',
        ''--boundary_5'',
        ''Content-Type: multipart/alternative; boundary="alt_boundary_6"'',
        '''',
        ''--alt_boundary_6'',
        ''Content-Type: text/plain; charset="UTF-8"'',
        ''Content-Transfer-Encoding: base64'',
        '''',
        ''aGkgdGhlcmU='',
        ''--alt_boundary_6'',
        ''Content-Type: text/html; charset="UTF-8"'',
        ''Content-Transfer-Encoding: base64'',
        '''',
        ''PGI+aGk8L2I+'',
        ''--alt_boundary_6--'']
   \<and> o_htmlBody (sample_options (Some ''<b>hi</b>'') None) = Some ''<b>hi</b>''
   \<and> clean_headers (sample_options (Some ''<b>hi</b>'') None)\<close>
proof -
  let ?N = "sample_options (Some ''<b>hi</b>'') None"
  let ?A = "sample_options (Some ''<b>hi</b>'') (Some [sample_attachment])"
  have h: "o_htmlBody (sample_options (Some ''<b>hi</b>'') atts) = Some ''<b>hi</b>''"
    "''<b>hi</b>'' \<noteq> []" for atts
    by (simp_all add: sample_options_def)
  have n: "\<not> truthy_len (o_attachments ?N)"
    by (simp add: sample_options_def truthy_len_def)
  have s: "o_attachments ?A = Some [sample_attachment] \<and> [sample_attachment] \<noteq> []"
    by (simp add: sample_options_def)
  have k: "clean_headers (sample_options (Some ''<b>hi</b>'') atts)" for atts
    by (simp add: sample_options_def clean_headers_def or_empty_def)
  note e = sample_options_def header_lines_def opt_header_def list_header_def
    boundary_token_def altBoundary_token_def show_nat_digit b64_char_def char_of_def
    bit_Suc_0_iff
  have l1: \<open>header_lines ?N
      @ [''Content-Type: multipart/alternative; boundary="'' @ boundary_token 5 @ ''"'',
         '''',
         ''--'' @ boundary_token 5,
         ''Content-Type: text/plain; charset="UTF-8"'',
         ''Content-Transfer-Encoding: base64'',
         '''',
         toBase64 (o_body ?N),
         ''--'' @ boundary_token 5,
         ''Content-Type: text/html; charset="UTF-8"'',
         ''Content-Transfer-Encoding: base64'',
         '''',
         toBase64 ''<b>hi</b>'',
         ''--'' @ boundary_token 5 @ ''--'']
    = [''To: a@b.com'',
       ''Subject: =?UTF-8?B?SGk=?='',
       ''MIME-Version: 1.0'',
       ''Content-Type: multipart/alternative; boundary="boundary_5"'',
       '''',
       ''--boundary_5'',
       ''Content-Type: text/plain; charset="UTF-8"'',
       ''Content-Transfer-Encoding: base64'',
       '''',
       ''aGkgdGhlcmU='',
       ''--boundary_5'',
       ''Content-Type: text/html; charset="UTF-8"'',
       ''Content-Transfer-Encoding: base64'',
       '''',
       ''PGI+aGk8L2I+'',
       ''--boundary_5--'']\<close>
    by (simp add: e)
  have l2: \<open>header_lines ?A
      @ [''Content-Type: multipart/mixed; boundary="'' @ boundary_token 5 @ ''"'',
         '''',
         ''--'' @ boundary_token 5,
         ''Content-Type: multipart/alternative; boundary="'' @ altBoundary_token 6 @ ''"'',
         '''',
         ''--'' @ altBoundary_token 6,
         ''Content-Type: text/plain; charset="UTF-8"'',
         ''Content-Transfer-Encoding: base64'',
         '''',
         toBase64 (o_body ?A),
         ''--'' @ altBoundary_token 6,
         ''Content-Type: text/html; charset="UTF-8"'',
         ''Content-Transfer-Encoding: base64'',
         '''',
         toBase64 ''<b>hi</b>'',
         ''--'' @ altBoundary_token 6 @ ''--'']
    = [''To: a@b.com'',
       ''Subject: =?UTF-8?B?SGk=?='',
       ''MIME-Version: 1.0'',
       ''Content-Type: multipart/mixed; boundary="boundary_5"'',
       '''',
       ''--boundary_5'',
       ''Content-Type: multipart/alternative; boundary="alt_boundary_6"'',
       '''',
       ''--alt_boundary_6'',
       ''Content-Type: text/plain; charset="UTF-8"'',
       ''Content-Transfer-Encoding: base64'',
       '''',
       ''aGkgdGhlcmU='',
       ''--alt_boundary_6'',
       ''Content-Type: text/html; charset="UTF-8"'',
       ''Content-Transfer-Encoding: base64'',
       '''',
       ''PGI+aGk8L2I+'',
       ''--alt_boundary_6--'']\<close>
    by (simp add: e)
  have len: "length (header_lines ?A) + 16 = 19"
    by (simp add: e)
  from plain_before_html [OF h, of None 5 6] n k [of None]
  have a: \<open>message_lines (buildRawEmail 5 6 ?N)
     = header_lines ?N
      @ [''Content-Type: multipart/alternative; boundary="'' @ boundary_token 5 @ ''"'',
         '''',
         ''--'' @ boundary_token 5,
         ''Content-Type: text/plain; charset="UTF-8"'',
         ''Content-Transfer-Encoding: base64'',
         '''',
         toBase64 (o_body ?N),
         ''--'' @ boundary_token 5,
         ''Content-Type: text/html; charset="UTF-8"'',
         ''Content-Transfer-Encoding: base64'',
         '''',
         toBase64 ''<b>hi</b>'',
         ''--'' @ boundary_token 5 @ ''--'']\<close>
    by blast
  from plain_before_html [OF h, of "Some [sample_attachment]" 5 6] s k [of "Some [sample_attachment]"]
  have b: \<open>take (length (header_lines ?A) + 16) (message_lines (buildRawEmail 5 6 ?A))
     = header_lines ?A
      @ [''Content-Type: multipart/mixed; boundary="'' @ boundary_token 5 @ ''"'',
         '''',
         ''--'' @ boundary_token 5,
         ''Content-Type: multipart/alternative; boundary="'' @ altBoundary_token 6 @ ''"'',
         '''',
         ''--'' @ altBoundary_token 6,
         ''Content-Type: text/plain; charset="UTF-8"'',
         ''Content-Transfer-Encoding: base64'',
         '''',
         toBase64 (o_body ?A),
         ''--'' @ altBoundary_token 6,
         ''Content-Type: text/html; charset="UTF-8"'',
         ''Content-Transfer-Encoding: base64'',
         '''',
         toBase64 ''<b>hi</b>'',
         ''--'' @ altBoundary_token 6 @ ''--'']\<close>
    by blast
  from a [unfolded l1] b [unfolded l2 len] h(1) [of None] k [of None] show ?thesis
    by simp
qed

subsection \<open>Filter shorthands\<close>

lemma create_filter_calls:
  "fst (create_filter (Inr gmail) args)
     = [FiltersCreate (create_filter_criteria args) (create_filter_action args)]"
  by (simp add: create_filter_def Let_def split: sum.splits)

lemma create_filter_markRead_archive:
  assumes "truthy_bool (f_markRead args)" "truthy_bool (f_archive args)"
    and "f_removeLabelIds args = None"
  shows "a_removeLabelIds (create_filter_action args) = Some [''UNREAD'', ''INBOX'']"
  using assms by (simp add: create_filter_action_def Let_def push_def or_empty_def split: option.splits)

lemma create_filter_trash_alone:
  assumes "truthy_bool (f_trash args)" "or_empty (f_addLabelIds args) = []"
    and "\<not> truthy_bool (f_star args)" "\<not> truthy_bool (f_markImportant args)"
  shows "a_addLabelIds (create_filter_action args) = Some [''TRASH'']"
  using assms by (simp add: create_filter_action_def Let_def push_def split: option.splits)

lemma create_filter_add_overwrites:
  assumes "f_addLabelIds args = Some xs" "xs \<noteq> []"
  shows "a_addLabelIds (create_filter_action args)
       = Some (xs @ (if truthy_bool (f_star args) then [''STARRED''] else [])
                  @ (if truthy_bool (f_markImportant args) then [''IMPORTANT''] else []))"
  using assms by (simp add: create_filter_action_def Let_def push_def or_empty_def)

text \<open>
  Claim C1. With \<open>markRead\<close> and \<open>archive\<close> set and no explicit \<open>removeLabelIds\<close> the
  action's remove list is \<open>UNREAD, INBOX\<close> (lemma \<open>create_filter_markRead_archive\<close>).
  With \<open>trash\<close> set the handler first stores the explicit add-labels followed by
  \<open>TRASH\<close>, but the later assignment from \<open>addIds\<close> replaces that list whenever
  \<open>addIds\<close> is not empty. For the call \<open>{from: "x@y.com", addLabelIds: ["Label_1"],
  trash: true}\<close> the action sent to the provider adds \<open>Label_1\<close> only: \<open>TRASH\<close> is
  lost.
\<close>

theorem create_filter_trash_overwritten:
  "fst (create_filter (Inr (sample_client []))
          \<lparr>f_from = Some ''x@y.com'', f_to = None, f_subject = None, f_query = None,
           f_addLabelIds = Some [''Label_1''], f_removeLabelIds = None, f_forward = None,
           f_star = None, f_markImportant = None, f_markRead = None, f_archive = None,
           f_trash = Some True\<rparr>)
   = [FiltersCreate
        \<lparr>c_from = Some ''x@y.com'', c_to = None, c_subject = None, c_query = None\<rparr>
        \<lparr>a_addLabelIds = Some [''Label_1''], a_removeLabelIds = None, a_forward = None\<rparr>]"
  by (simp add: create_filter_calls create_filter_criteria_def create_filter_action_def
      truthy_str_def truthy_bool_def or_empty_def push_def Let_def)

subsection \<open>Batch operations\<close>

lemma show_nat_50: "show_nat 50 = ''50''"
  by (simp add: show_nat.simps digit_char_def char_of_def bit_Suc_0_iff)

text \<open>
  Claim C7. When \<open>batch_modify_emails\<close> or \<open>batch_delete_emails\<close> is called with more
  than 50 message identifiers, the single bulk call issued to the provider carries
  exactly the first 50 of them (\<open>messageIds.slice(0, 50)\<close>), and when that call succeeds
  the returned text reports 50, the number submitted. A provider failure is passed on
  unchanged.
\<close>

theorem batch_cap_50:
  assumes "50 < length messageIds"
  shows "length (take 50 messageIds) = 50
    \<and> fst (batch_modify_emails (Inr gmail) messageIds addLabels removeLabels)
        = [BatchModify (take 50 messageIds) addLabels removeLabels]
    \<and> snd (batch_modify_emails (Inr gmail) messageIds addLabels removeLabels)
        = map_sum id (\<lambda>_. ''Batch modified 50 emails.'')
            (messages_batchModify gmail (take 50 messageIds) addLabels removeLabels)
    \<and> fst (batch_delete_emails (Inr gmail) messageIds) = [BatchDelete (take 50 messageIds)]
    \<and> snd (batch_delete_emails (Inr gmail) messageIds)
        = map_sum id (\<lambda>_. ''Batch deleted 50 emails.'')
            (messages_batchDelete gmail (take 50 messageIds))"
proof -
  from assms have len: "length (take 50 messageIds) = 50" by simp
  have m: "snd (batch_modify_emails (Inr gmail) messageIds addLabels removeLabels)
        = map_sum id (\<lambda>_. ''Batch modified 50 emails.'')
            (messages_batchModify gmail (take 50 messageIds) addLabels removeLabels)"
    unfolding batch_modify_emails_def Let_def len show_nat_50
    by (cases "messages_batchModify gmail (take 50 messageIds) addLabels removeLabels") simp_all
  have d: "snd (batch_delete_emails (Inr gmail) messageIds)
        = map_sum id (\<lambda>_. ''Batch deleted 50 emails.'')
            (messages_batchDelete gmail (take 50 messageIds))"
    unfolding batch_delete_emails_def Let_def len show_nat_50
    by (cases "messages_batchDelete gmail (take 50 messageIds)") simp_all
  have fm: "fst (batch_modify_emails (Inr gmail) messageIds addLabels removeLabels)
        = [BatchModify (take 50 messageIds) addLabels removeLabels]"
    by (simp add: batch_modify_emails_def Let_def split: sum.splits)
  have fd: "fst (batch_delete_emails (Inr gmail) messageIds) = [BatchDelete (take 50 messageIds)]"
    by (simp add: batch_delete_emails_def Let_def split: sum.splits)
  from len m d fm fd show ?thesis by blast
qed

text \<open>Seventy-five identifiers in, fifty forwarded, and the text says 50.\<close>

theorem batch_cap_50_witness:
  "50 < length (replicate 75 ''id'')
   \<and> batch_modify_emails (Inr (sample_client [])) (replicate 75 ''id'') (Some [''STARRED'']) None
       = ([BatchModify (replicate 50 ''id'') (Some [''STARRED'']) None], Inr ''Batch modified 50 emails.'')
   \<and> batch_delete_emails (Inr (sample_client [])) (replicate 75 ''id'')
       = ([BatchDelete (replicate 50 ''id'')], Inr ''Batch deleted 50 emails.'')"
proof -
  have h: "50 < length (replicate 75 ''id'')" by simp
  have t: "take 50 (replicate 75 ''id'') = replicate 50 ''id''" by simp
  from batch_cap_50 [OF h, of "sample_client []" "Some [''STARRED'']" None]
  show ?thesis
    unfolding t by (simp add: sample_client_def prod_eq_iff)
qed

subsection \<open>The send-email webhook\<close>

lemma unauthorized_iff:
  "unauthorized env request
     = (truthy_str (WEBHOOK_SECRET env)
        \<and> authorization request \<noteq> Some (''Bearer '' @ or_empty (WEBHOOK_SECRET env)))"
  by (simp add: unauthorized_def truthy_str_def or_empty_def split: option.splits)

lemma missing_or_empty_iff: "missing_or_empty v = (\<not> truthy_field v)"
  by (simp add: missing_or_empty_def truthy_field_def split: json_field.splits)

lemma invalid_payload_iff:
  "invalid_payload p
     = (\<not> truthy_field (w_to p) \<or> \<not> truthy_field (w_subject p) \<or> \<not> body_is_string (w_body p))"
  by (simp add: invalid_payload_def missing_or_empty_iff body_is_string_def split: body_value.splits)

lemma POST_unauthorized:
  "unauthorized env request \<Longrightarrow>
     POST env send now request = \<lparr>status = 401, json_body = ErrorJson ''Unauthorized''\<rparr>"
  by (simp add: POST_def POST_try_def Let_def unauthorized_iff)

lemma POST_json_throws:
  "\<not> unauthorized env request \<Longrightarrow> json request = JsonThrows m \<Longrightarrow>
     POST env send now request = \<lparr>status = 500, json_body = ErrorJson m\<rparr>"
  by (simp add: POST_def POST_try_def Let_def unauthorized_iff)

lemma POST_json_null:
  "\<not> unauthorized env request \<Longrightarrow> json request = JsonNull \<Longrightarrow>
     POST env send now request
       = \<lparr>status = 500,
          json_body = ErrorJson ''Cannot destructure property 'to' of 'payload' as it is null.''\<rparr>"
  by (simp add: POST_def POST_try_def Let_def unauthorized_iff)

lemma POST_invalid:
  "\<not> unauthorized env request \<Longrightarrow> json request = JsonValue p \<Longrightarrow> invalid_payload p \<Longrightarrow>
     POST env send now request
       = \<lparr>status = 400, json_body = ErrorJson ''Missing or invalid: to, subject, body''\<rparr>"
  unfolding invalid_payload_iff unauthorized_iff
  by (simp add: POST_def POST_try_def Let_def)

lemma POST_valid:
  assumes "\<not> unauthorized env request" "json request = JsonValue p" "\<not> invalid_payload p"
  shows "POST env send now request =
     (case getCredentialsFromEnv env of
        Inl (Error m) \<Rightarrow> \<lparr>status = 500, json_body = ErrorJson m\<rparr>
      | Inr creds \<Rightarrow>
          (case route_arguments p of
             Inl (Error m) \<Rightarrow> \<lparr>status = 500, json_body = ErrorJson m\<rparr>
           | Inr options \<Rightarrow>
               (case send creds (buildRawEmail_route now options) of
                  Inl (Error m) \<Rightarrow> \<lparr>status = 500, json_body = ErrorJson m\<rparr>
                | Inr rid \<Rightarrow> \<lparr>status = 200, json_body = OkJson rid\<rparr>)))"
  using assms unfolding invalid_payload_iff unauthorized_iff
  by (simp add: POST_def POST_try_def Let_def split: sum.splits error.splits)

lemma POST_other_failure:
  assumes "\<not> unauthorized env request" "\<not> invalid_request (json request)"
    and "status (POST env send now request) \<noteq> 200"
  shows "status (POST env send now request) = 500
       \<and> (\<exists>m. json_body (POST env send now request) = ErrorJson m)"
proof (cases "json request")
  case (JsonThrows m)
  with assms(1) show ?thesis by (simp add: POST_json_throws)
next
  case JsonNull
  with assms(2) show ?thesis by (simp add: invalid_request_def)
next
  case (JsonValue p)
  with assms(2) have v: "\<not> invalid_payload p"
    by (simp add: invalid_request_def)
  from assms(3) show ?thesis
    unfolding POST_valid [OF assms(1) JsonValue v]
    by (auto split: sum.splits error.splits)
qed

text \<open>A typed payload reaches the encoder as it is.\<close>

lemma read_typed_attachments:
  "read_attachments (map (\<lambda>a. AttFields (mimeType a) (filename a) (Inr (content a))) atts)
     = Inr (map (\<lambda>a. (mimeType a, filename a, Inr (content a))) atts)"
  by (induction atts) simp_all

lemma join_typed_contents:
  "join_contents (map (\<lambda>a. (mimeType a, filename a, Inr (content a))) atts) = Inr atts"
  by (induction atts) simp_all

lemma route_arguments_typed:
  "route_arguments
     \<lparr>w_to = JsonString t, w_subject = JsonString s, w_body = BodyString b,
      w_attachments = Some (map (\<lambda>a. AttFields (mimeType a) (filename a) (Inr (content a))) atts)\<rparr>
     = Inr \<lparr>r_to = t, r_subject = s, r_body = b, r_attachments = atts\<rparr>"
  by (simp add: route_arguments_def template_text_def buffer_bytes_def or_empty_def
      body_string_def read_typed_attachments join_typed_contents)

text \<open>
  Claim C8, as the claim states it, fails on a request whose body is the JSON \<open>null\<close>:
  the request is authorized, it carries neither \<open>to\<close> nor \<open>subject\<close>, and the answer is
  not 400 but 500, because the destructuring of \<open>null\<close> throws before the fields are
  checked.
\<close>

theorem null_payload_answered_500:
  "\<not> unauthorized sample_env \<lparr>authorization = Some ''Bearer s3cret'', json = JsonNull\<rparr>
   \<and> invalid_request (json \<lparr>authorization = Some ''Bearer s3cret'', json = JsonNull\<rparr>)
   \<and> status (POST sample_env (\<lambda>c r. Inr (Some ''m1'')) 5
        \<lparr>authorization = Some ''Bearer s3cret'', json = JsonNull\<rparr>) = 500"
  by (simp add: unauthorized_def sample_env_def invalid_request_def POST_def POST_try_def
      truthy_str_def or_empty_def)

text \<open>
  Claim C8, amended. The webhook's \<open>POST\<close> answers 401 when a secret is configured and
  the Authorization header is not \<open>Bearer <secret>\<close>; otherwise, for a parsed JSON value
  other than \<open>null\<close>, 400 with an error body when \<open>to\<close> or \<open>subject\<close> is missing or
  empty or \<open>body\<close> is not a string; otherwise \<open>{ok: true, messageId}\<close> (status 200) when
  the credentials are present, the encoder's conversions succeed and the provider
  accepts the message; and 500 with the failure's message for every failure that is
  thrown: a request body that is not JSON, a JSON \<open>null\<close> (whose destructuring throws),
  missing environment credentials, a \<open>to\<close>, \<open>subject\<close> or attachment that is not a
  string and cannot be converted, and a failing provider call. Every answer to an
  authorized request that is neither the 400 nor the 200 is a 500 with an error body.
\<close>

theorem webhook_status_mapping:
  "(unauthorized env request \<longrightarrow>
        POST env send now request = \<lparr>status = 401, json_body = ErrorJson ''Unauthorized''\<rparr>)
   \<and> (\<not> unauthorized env request \<and> json request = JsonValue p \<and> invalid_payload p \<longrightarrow>
        status (POST env send now request) = 400
        \<and> (\<exists>m. json_body (POST env send now request) = ErrorJson m))
   \<and> (\<not> unauthorized env request \<and> json request = JsonValue p \<and> \<not> invalid_payload p
        \<and> getCredentialsFromEnv env = Inr creds \<and> route_arguments p = Inr options
        \<and> send creds (buildRawEmail_route now options) = Inr rid \<longrightarrow>
        POST env send now request = \<lparr>status = 200, json_body = OkJson rid\<rparr>)
   \<and> (\<not> unauthorized env request \<and> json request = JsonThrows m \<longrightarrow>
        POST env send now request = \<lparr>status = 500, json_body = ErrorJson m\<rparr>)
   \<and> (\<not> unauthorized env request \<and> json request = JsonNull \<longrightarrow>
        status (POST env send now request) = 500
        \<and> (\<exists>m. json_body (POST env send now request) = ErrorJson m))
   \<and> (\<not> unauthorized env request \<and> json request = JsonValue p \<and> \<not> invalid_payload p
        \<and> getCredentialsFromEnv env = Inl (Error m) \<longrightarrow>
        POST env send now request = \<lparr>status = 500, json_body = ErrorJson m\<rparr>)
   \<and> (\<not> unauthorized env request \<and> json request = JsonValue p \<and> \<not> invalid_payload p
        \<and> getCredentialsFromEnv env = Inr creds \<and> route_arguments p = Inl (Error m) \<longrightarrow>
        POST env send now request = \<lparr>status = 500, json_body = ErrorJson m\<rparr>)
   \<and> (\<not> unauthorized env request \<and> json request = JsonValue p \<and> \<not> invalid_payload p
        \<and> getCredentialsFromEnv env = Inr creds \<and> route_arguments p = Inr options
        \<and> send creds (buildRawEmail_route now options) = Inl (Error m) \<longrightarrow>
        POST env send now request = \<lparr>status = 500, json_body = ErrorJson m\<rparr>)
   \<and> (\<not> unauthorized env request \<and> \<not> invalid_request (json request)
        \<and> status (POST env send now request) \<noteq> 200 \<longrightarrow>
        status (POST env send now request) = 500
        \<and> (\<exists>m. json_body (POST env send now request) = ErrorJson m))
   \<and> route_arguments
        \<lparr>w_to = JsonString t, w_subject = JsonString s, w_body = BodyString b,
         w_attachments = Some (map (\<lambda>a. AttFields (mimeType a) (filename a) (Inr (content a))) atts)\<rparr>
       = Inr \<lparr>r_to = t, r_subject = s, r_body = b, r_attachments = atts\<rparr>"
proof (intro conjI impI)
  assume "unauthorized env request"
  then show "POST env send now request = \<lparr>status = 401, json_body = ErrorJson ''Unauthorized''\<rparr>"
    by (simp add: POST_unauthorized)
next
  assume "\<not> unauthorized env request \<and> json request = JsonValue p \<and> invalid_payload p"
  then have "POST env send now request
       = \<lparr>status = 400, json_body = ErrorJson ''Missing or invalid: to, subject, body''\<rparr>"
    by (simp add: POST_invalid)
  then show "status (POST env send now request) = 400"
    and "\<exists>m. json_body (POST env send now request) = ErrorJson m"
    by simp_all
next
  assume "\<not> unauthorized env request \<and> json request = JsonValue p \<and> \<not> invalid_payload p
        \<and> getCredentialsFromEnv env = Inr creds \<and> route_arguments p = Inr options
        \<and> send creds (buildRawEmail_route now options) = Inr rid"
  then show "POST env send now request = \<lparr>status = 200, json_body = OkJson rid\<rparr>"
    by (simp add: POST_valid)
next
  assume "\<not> unauthorized env request \<and> json request = JsonThrows m"
  then show "POST env send now request = \<lparr>status = 500, json_body = ErrorJson m\<rparr>"
    by (simp add: POST_json_throws)
next
  assume a: "\<not> unauthorized env request \<and> json request = JsonNull"
  with POST_json_null [of env request send now]
  show "status (POST env send now request) = 500"
    and "\<exists>m. json_body (POST env send now request) = ErrorJson m"
    by simp_all
next
  assume "\<not> unauthorized env request \<and> json request = JsonValue p \<and> \<not> invalid_payload p
        \<and> getCredentialsFromEnv env = Inl (Error m)"
  then show "POST env send now request = \<lparr>status = 500, json_body = ErrorJson m\<rparr>"
    by (simp add: POST_valid)
next
  assume "\<not> unauthorized env request \<and> json request = JsonValue p \<and> \<not> invalid_payload p
        \<and> getCredentialsFromEnv env = Inr creds \<and> route_arguments p = Inl (Error m)"
  then show "POST env send now request = \<lparr>status = 500, json_body = ErrorJson m\<rparr>"
    by (simp add: POST_valid)
next
  assume "\<not> unauthorized env request \<and> json request = JsonValue p \<and> \<not> invalid_payload p
        \<and> getCredentialsFromEnv env = Inr creds \<and> route_arguments p = Inr options
        \<and> send creds (buildRawEmail_route now options) = Inl (Error m)"
  then show "POST env send now request = \<lparr>status = 500, json_body = ErrorJson m\<rparr>"
    by (simp add: POST_valid)
next
  assume a: "\<not> unauthorized env request \<and> \<not> invalid_request (json request)
        \<and> status (POST env send now request) \<noteq> 200"
  with POST_other_failure [of env request send now]
  show "status (POST env send now request) = 500"
    and "\<exists>m. json_body (POST env send now request) = ErrorJson m"
    by simp_all
next
  show "route_arguments
        \<lparr>w_to = JsonString t, w_subject = JsonString s, w_body = BodyString b,
         w_attachments = Some (map (\<lambda>a. AttFields (mimeType a) (filename a) (Inr (content a))) atts)\<rparr>
       = Inr \<lparr>r_to = t, r_subject = s, r_body = b, r_attachments = atts\<rparr>"
    by (rule route_arguments_typed)
qed

text \<open>
  One request for each row of the mapping: no Authorization header; an authorized
  request without \<open>to\<close>; an authorized, valid request that the provider accepts; a body
  that is not JSON; missing credentials; a subject that is the number 123, which passes
  the check of the fields and makes \<open>Buffer.from\<close> throw; a provider failure; a
  body that is the JSON \<open>null\<close>.
\<close>

theorem webhook_status_mapping_witness:
  "status (POST sample_env (\<lambda>c r. Inr (Some ''m1'')) 5
      \<lparr>authorization = None, json = JsonValue sample_payload\<rparr>) = 401
   \<and> status (POST sample_env (\<lambda>c r. Inr (Some ''m1'')) 5
      \<lparr>authorization = Some ''Bearer s3cret'',
       json = JsonValue (sample_payload\<lparr>w_to := Absent\<rparr>)\<rparr>) = 400
   \<and> POST sample_env (\<lambda>c r. Inr (Some ''m1'')) 5
      \<lparr>authorization = Some ''Bearer s3cret'', json = JsonValue sample_payload\<rparr>
       = \<lparr>status = 200, json_body = OkJson (Some ''m1'')\<rparr>
   \<and> POST sample_env (\<lambda>c r. Inr (Some ''m1'')) 5
      \<lparr>authorization = Some ''Bearer s3cret'', json = JsonThrows ''Unexpected end of JSON input''\<rparr>
       = \<lparr>status = 500, json_body = ErrorJson ''Unexpected end of JSON input''\<rparr>
   \<and> status (POST (sample_env\<lparr>GMAIL_REFRESH_TOKEN := None\<rparr>) (\<lambda>c r. Inr (Some ''m1'')) 5
      \<lparr>authorization = Some ''Bearer s3cret'', json = JsonValue sample_payload\<rparr>) = 500
   \<and> POST sample_env (\<lambda>c r. Inr (Some ''m1'')) 5
      \<lparr>authorization = Some ''Bearer s3cret'',
       json = JsonValue (sample_payload
         \<lparr>w_subject := JsonOther True (Inr ''123'')
            (Inl (Error ''The first argument must be of type string or an instance of Buffer, ArrayBuffer, or Array or an Array-like Object. Received type number (123)''))\<rparr>)\<rparr>
       = \<lparr>status = 500,
          json_body = ErrorJson ''The first argument must be of type string or an instance of Buffer, ArrayBuffer, or Array or an Array-like Object. Received type number (123)''\<rparr>
   \<and> POST sample_env (\<lambda>c r. Inl (Error ''Invalid Credentials'')) 5
      \<lparr>authorization = Some ''Bearer s3cret'', json = JsonValue sample_payload\<rparr>
       = \<lparr>status = 500, json_body = ErrorJson ''Invalid Credentials''\<rparr>
   \<and> status (POST sample_env (\<lambda>c r. Inr (Some ''m1'')) 5
      \<lparr>authorization = Some ''Bearer s3cret'', json = JsonNull\<rparr>) = 500"
proof -
  let ?ok = "\<lambda>(c::env_credentials) (r::string). (Inr (Some ''m1'') :: error + string option)"
  let ?fail = "\<lambda>(c::env_credentials) (r::string). (Inl (Error ''Invalid Credentials'') :: error + string option)"
  let ?auth = "Some ''Bearer s3cret''"
  let ?creds = "\<lparr>clientId = ''id'', clientSecret = ''cs'', refreshToken = ''rt''\<rparr>"
  let ?opts = "\<lparr>r_to = ''a@b.com'', r_subject = ''Hi'', r_body = ''hi there'', r_attachments = []\<rparr>"
  let ?msg = "''The first argument must be of type string or an instance of Buffer, ArrayBuffer, or Array or an Array-like Object. Received type number (123)''"
  let ?num = "sample_payload\<lparr>w_subject := JsonOther True (Inr ''123'') (Inl (Error ?msg))\<rparr>"
  have u1: "unauthorized sample_env \<lparr>authorization = None, json = j\<rparr>" for j
    by (simp add: unauthorized_def sample_env_def)
  have u2: "\<not> unauthorized e \<lparr>authorization = ?auth, json = j\<rparr>"
    if "WEBHOOK_SECRET e = Some ''s3cret''" for j e
    using that by (simp add: unauthorized_def)
  have s: "WEBHOOK_SECRET sample_env = Some ''s3cret''"
    "WEBHOOK_SECRET (sample_env\<lparr>GMAIL_REFRESH_TOKEN := None\<rparr>) = Some ''s3cret''"
    by (simp_all add: sample_env_def)
  have v: "\<not> invalid_payload sample_payload" "invalid_payload (sample_payload\<lparr>w_to := Absent\<rparr>)"
    "\<not> invalid_payload ?num"
    by (simp_all add: invalid_payload_def missing_or_empty_def sample_payload_def)
  have c: "getCredentialsFromEnv sample_env = Inr ?creds"
    by (simp add: getCredentialsFromEnv_def sample_env_def truthy_str_def or_empty_def)
  have c': "getCredentialsFromEnv (sample_env\<lparr>GMAIL_REFRESH_TOKEN := None\<rparr>)
      = Inl (Error ''Missing GMAIL_CLIENT_ID, GMAIL_CLIENT_SECRET, or GMAIL_REFRESH_TOKEN. Set them in Vercel env (or .env.local).'')"
    by (simp add: getCredentialsFromEnv_def sample_env_def truthy_str_def)
  have o: "route_arguments sample_payload = Inr ?opts"
    "route_arguments ?num = Inl (Error ?msg)"
    by (simp_all add: route_arguments_def sample_payload_def template_text_def buffer_bytes_def
        or_empty_def body_string_def)
  note r1 = webhook_status_mapping [where env = sample_env and send = ?ok and now = 5
      and request = "\<lparr>authorization = None, json = JsonValue sample_payload\<rparr>"]
  note r2 = webhook_status_mapping [where env = sample_env and send = ?ok and now = 5
      and request = "\<lparr>authorization = ?auth, json = JsonValue (sample_payload\<lparr>w_to := Absent\<rparr>)\<rparr>"
      and p = "sample_payload\<lparr>w_to := Absent\<rparr>"]
  note r3 = webhook_status_mapping [where env = sample_env and send = ?ok and now = 5
      and request = "\<lparr>authorization = ?auth, json = JsonValue sample_payload\<rparr>"
      and p = sample_payload and creds = ?creds and options = ?opts and rid = "Some ''m1''"]
  note r4 = webhook_status_mapping [where env = sample_env and send = ?ok and now = 5
      and request = "\<lparr>authorization = ?auth, json = JsonThrows ''Unexpected end of JSON input''\<rparr>"
      and m = "''Unexpected end of JSON input''"]
  note r5 = webhook_status_mapping [where env = "sample_env\<lparr>GMAIL_REFRESH_TOKEN := None\<rparr>"
      and send = ?ok and now = 5
      and request = "\<lparr>authorization = ?auth, json = JsonValue sample_payload\<rparr>"
      and p = sample_payload
      and m = "''Missing GMAIL_CLIENT_ID, GMAIL_CLIENT_SECRET, or GMAIL_REFRESH_TOKEN. Set them in Vercel env (or .env.local).''"]
  note r6 = webhook_status_mapping [where env = sample_env and send = ?fail and now = 5
      and request = "\<lparr>authorization = ?auth, json = JsonValue sample_payload\<rparr>"
      and p = sample_payload and creds = ?creds and options = ?opts
      and m = "''Invalid Credentials''"]
  note r7 = webhook_status_mapping [where env = sample_env and send = ?ok and now = 5
      and request = "\<lparr>authorization = ?auth, json = JsonValue ?num\<rparr>"
      and p = ?num and creds = ?creds and m = ?msg]
  from r1 u1 have a1: "status (POST sample_env ?ok 5
      \<lparr>authorization = None, json = JsonValue sample_payload\<rparr>) = 401"
    by simp
  from r2 u2 [OF s(1)] v(2) have a2: "status (POST sample_env ?ok 5
      \<lparr>authorization = ?auth, json = JsonValue (sample_payload\<lparr>w_to := Absent\<rparr>)\<rparr>) = 400"
    by simp
  from r3 u2 [OF s(1)] v(1) c o(1) have a3: "POST sample_env ?ok 5
      \<lparr>authorization = ?auth, json = JsonValue sample_payload\<rparr>
       = \<lparr>status = 200, json_body = OkJson (Some ''m1'')\<rparr>"
    by simp
  from r4 u2 [OF s(1)] have a4: "POST sample_env ?ok 5
      \<lparr>authorization = ?auth, json = JsonThrows ''Unexpected end of JSON input''\<rparr>
       = \<lparr>status = 500, json_body = ErrorJson ''Unexpected end of JSON input''\<rparr>"
    by simp
  from r5 u2 [OF s(2)] v(1) c' have a5: "status (POST (sample_env\<lparr>GMAIL_REFRESH_TOKEN := None\<rparr>) ?ok 5
      \<lparr>authorization = ?auth, json = JsonValue sample_payload\<rparr>) = 500"
    by simp
  from r7 u2 [OF s(1)] v(3) c o(2) have a7: "POST sample_env ?ok 5
      \<lparr>authorization = ?auth, json = JsonValue ?num\<rparr>
       = \<lparr>status = 500, json_body = ErrorJson ?msg\<rparr>"
    by simp
  from r6 u2 [OF s(1)] v(1) c o(1) have a6: "POST sample_env ?fail 5
      \<lparr>authorization = ?auth, json = JsonValue sample_payload\<rparr>
       = \<lparr>status = 500, json_body = ErrorJson ''Invalid Credentials''\<rparr>"
    by simp
  note r8 = webhook_status_mapping [where env = sample_env and send = ?ok and now = 5
      and request = "\<lparr>authorization = ?auth, json = JsonNull\<rparr>"]
  from r8 u2 [OF s(1)] have a8: "status (POST sample_env ?ok 5
      \<lparr>authorization = ?auth, json = JsonNull\<rparr>) = 500"
    by simp
  from a1 a2 a3 a4 a5 a7 a6 a8 show ?thesis by blast
qed

subsection \<open>Replies\<close>

lemma reply_subject_cases:
  "reply_subject ''Re: hello'' = ''Re: hello''" "reply_subject ''hello'' = ''Re: hello''"
  by (simp_all add: reply_subject_def startsWith_def)

lemma reply_to_email_calls:
  assumes "messages_get gmail messageId ''metadata''
             [''From'', ''To'', ''Cc'', ''Subject'', ''Message-ID'', ''References''] = Inr origData"
  shows "fst (reply_to_email (Inr gmail) now1 now2 messageId body htmlBody replyAll)
       = [MessagesGet messageId ''metadata''
            [''From'', ''To'', ''Cc'', ''Subject'', ''Message-ID'', ''References''],
          MessagesSend
            (buildRawEmail now1 now2
               (reply_options (msg_headers (m_payload origData)) body htmlBody replyAll))
            (Some (m_threadId origData))]"
  using assms by (simp add: reply_to_email_def Let_def push_def split: sum.splits)

text \<open>
  Claim C9. In \<open>reply_to_email\<close>, when the original message's Subject header is
  \<open>Re: hello\<close> the reply's subject is \<open>Re: hello\<close> again, with no second prefix, and when
  it is \<open>hello\<close> the reply's subject is \<open>Re: hello\<close>. That subject is the one of the
  message handed to the encoder and sent to the provider in the original's thread.
\<close>

theorem reply_subject_rule:
  assumes get: "messages_get gmail messageId ''metadata''
                  [''From'', ''To'', ''Cc'', ''Subject'', ''Message-ID'', ''References''] = Inr origData"
    and subj: "getHeader (msg_headers (m_payload origData)) ''Subject'' = ''Re: hello''
               \<or> getHeader (msg_headers (m_payload origData)) ''Subject'' = ''hello''"
  shows "o_subject (reply_options (msg_headers (m_payload origData)) body htmlBody replyAll)
           = ''Re: hello''
    \<and> fst (reply_to_email (Inr gmail) now1 now2 messageId body htmlBody replyAll)
        = [MessagesGet messageId ''metadata''
             [''From'', ''To'', ''Cc'', ''Subject'', ''Message-ID'', ''References''],
           MessagesSend
             (buildRawEmail now1 now2
                (reply_options (msg_headers (m_payload origData)) body htmlBody replyAll))
             (Some (m_threadId origData))]"
proof -
  from subj have "reply_subject (getHeader (msg_headers (m_payload origData)) ''Subject'')
      = ''Re: hello''"
    by (auto simp: reply_subject_cases)
  then have "o_subject (reply_options (msg_headers (m_payload origData)) body htmlBody replyAll)
      = ''Re: hello''"
    by (simp add: reply_options_def Let_def)
  with reply_to_email_calls [OF get] show ?thesis by simp
qed

lemma sample_subject:
  "getHeader (msg_headers (m_payload (sample_message subj))) ''Subject'' = subj"
  by (simp add: sample_message_def msg_headers_def or_empty_def getHeader_def toLowerCase_def
      char_of_def bit_Suc_0_iff)

theorem reply_subject_rule_witness:
  "o_subject (reply_options (msg_headers (m_payload (sample_message ''Re: hello''))) ''ok'' None None)
     = ''Re: hello''
   \<and> o_subject (reply_options (msg_headers (m_payload (sample_message ''hello''))) ''ok'' None None)
     = ''Re: hello''
   \<and> messages_get (sample_client ''hello'') ''m1'' ''metadata''
        [''From'', ''To'', ''Cc'', ''Subject'', ''Message-ID'', ''References'']
       = Inr (sample_message ''hello'')"
proof -
  have g: "messages_get (sample_client s) ''m1'' ''metadata''
             [''From'', ''To'', ''Cc'', ''Subject'', ''Message-ID'', ''References'']
           = Inr (sample_message s)" for s
    by (simp add: sample_client_def)
  have a: "getHeader (msg_headers (m_payload (sample_message ''Re: hello''))) ''Subject'' = ''Re: hello''
      \<or> getHeader (msg_headers (m_payload (sample_message ''Re: hello''))) ''Subject'' = ''hello''"
    by (simp add: sample_subject)
  have b: "getHeader (msg_headers (m_payload (sample_message ''hello''))) ''Subject'' = ''Re: hello''
      \<or> getHeader (msg_headers (m_payload (sample_message ''hello''))) ''Subject'' = ''hello''"
    by (simp add: sample_subject)
  from reply_subject_rule [OF g a, of "''ok''" None None 1 2]
    reply_subject_rule [OF g b, of "''ok''" None None 1 2] g [of "''hello''"]
  show ?thesis by simp
qed

subsection \<open>Search results\<close>

lemma search_loop_results:
  assumes "search_loop gmail msgs acc calls = (calls', Inr results)"
  shows "\<exists>new. results = acc @ new \<and> length new = length msgs \<and> list_all (\<lambda>r. pm_body r = []) new"
  using assms
proof (induction msgs arbitrary: acc calls)
  case Nil
  then show ?case by simp
next
  case (Cons msg msgs)
  let ?hs = "[''From'', ''To'', ''Subject'', ''Date'']"
  show ?case
  proof (cases "messages_get gmail (ref_id msg) ''metadata'' ?hs")
    case (Inl e)
    with Cons.prems show ?thesis by (simp add: Let_def)
  next
    case (Inr d)
    define entry where "entry =
      \<lparr>pm_id = m_id d, pm_threadId = m_threadId d,
       pm_from = getHeader (msg_headers (m_payload d)) ''From'',
       pm_to = getHeader (msg_headers (m_payload d)) ''To'',
       pm_subject = getHeader (msg_headers (m_payload d)) ''Subject'',
       pm_date = getHeader (msg_headers (m_payload d)) ''Date'',
       pm_snippet = or_empty (m_snippet d), pm_body = [],
       pm_labels = or_empty (m_labelIds d)\<rparr>"
    from Cons.prems Inr
    have "search_loop gmail msgs (acc @ [entry])
            (push calls (MessagesGet (ref_id msg) ''metadata'' ?hs)) = (calls', Inr results)"
      by (simp add: Let_def push_def entry_def)
    from Cons.IH [OF this] obtain new
      where new: "results = (acc @ [entry]) @ new" "length new = length msgs"
        "list_all (\<lambda>r. pm_body r = []) new"
      by blast
    have "pm_body entry = []" by (simp add: entry_def)
    with new have "results = acc @ (entry # new) \<and> length (entry # new) = length (msg # msgs)
        \<and> list_all (\<lambda>r. pm_body r = []) (entry # new)"
      by simp
    then show ?thesis by blast
  qed
qed

lemma search_emails_bodies:
  assumes "snd (search_emails getGmailClient query maxResults) = Inr (Json_messages results)"
  shows "list_all (\<lambda>r. pm_body r = []) results"
proof (cases getGmailClient)
  case (Inl e)
  with assms show ?thesis by (simp add: search_emails_def)
next
  case (Inr gmail)
  let ?limit = "min (max_results_or maxResults 10) 100"
  show ?thesis
  proof (cases "messages_list gmail query ?limit")
    case (Inl e)
    with assms Inr show ?thesis by (simp add: search_emails_def Let_def)
  next
    case listed: (Inr listed)
    show ?thesis
    proof (cases "length (or_empty listed) = 0")
      case True
      with assms Inr listed show ?thesis by (simp add: search_emails_def Let_def)
    next
      case False
      obtain calls' out where loop:
        "search_loop gmail (or_empty listed) [] [MessagesList query ?limit] = (calls', out)"
        by (cases "search_loop gmail (or_empty listed) [] [MessagesList query ?limit]")
      with assms Inr listed False have "out = Inr results"
        by (cases out) (simp_all add: search_emails_def Let_def)
      with loop search_loop_results [of gmail "or_empty listed" "[]" _ calls' results]
      show ?thesis by auto
    qed
  qed
qed

lemma read_email_outcome:
  "snd (read_email (Inr gmail) messageId)
     = map_sum id (\<lambda>d. Json_message (parseMessage d)) (messages_get gmail messageId ''full'' [])"
  by (cases "messages_get gmail messageId ''full'' []") (simp_all add: read_email_def)

lemma get_thread_outcome:
  "snd (get_thread (Inr gmail) threadId)
     = map_sum id (\<lambda>ms. Json_messages (map parseMessage (or_empty ms)))
         (threads_get gmail threadId ''full'')"
  by (cases "threads_get gmail threadId ''full''") (simp_all add: get_thread_def)

text \<open>
  Claim C10. Whenever \<open>search_emails\<close> succeeds with a list of results, every entry of
  that list has the empty string as its body, whatever the matched message contains:
  the entry is built from the metadata request alone (identifiers, the four headers,
  snippet, labels) and its body field is the literal \<open>''\<close>. \<open>read_email\<close> and
  \<open>get_thread\<close>, by contrast, return what \<open>parseMessage\<close> makes of the full message,
  body included.
\<close>

theorem search_results_body_empty:
  "(snd (search_emails getGmailClient query maxResults) = Inr (Json_messages results)
      \<longrightarrow> list_all (\<lambda>r. pm_body r = []) results)
   \<and> snd (read_email (Inr gmail) messageId)
       = map_sum id (\<lambda>d. Json_message (parseMessage d)) (messages_get gmail messageId ''full'' [])
   \<and> snd (get_thread (Inr gmail) threadId)
       = map_sum id (\<lambda>ms. Json_messages (map parseMessage (or_empty ms)))
           (threads_get gmail threadId ''full'')"
  using search_emails_bodies [of getGmailClient query maxResults results]
    read_email_outcome [of gmail messageId] get_thread_outcome [of gmail threadId]
  by blast

text \<open>
  The sample provider lists two messages whose payload body holds the data of
  \<open>hi there\<close>: the search results carry an empty body, \<open>read_email\<close> returns the text.
\<close>

theorem search_results_body_empty_witness:
  "snd (search_emails (Inr (sample_client ''hello'')) ''is:unread'' None)
     = Inr (Json_messages
         [\<lparr>pm_id = ''m1'', pm_threadId = ''t1'', pm_from = ''a@b.com'', pm_to = [],
           pm_subject = ''hello'', pm_date = [], pm_snippet = ''hi'', pm_body = [],
           pm_labels = [''INBOX'']\<rparr>,
          \<lparr>pm_id = ''m1'', pm_threadId = ''t1'', pm_from = ''a@b.com'', pm_to = [],
           pm_subject = ''hello'', pm_date = [], pm_snippet = ''hi'', pm_body = [],
           pm_labels = [''INBOX'']\<rparr>])
   \<and> snd (read_email (Inr (sample_client ''hello'')) ''m1'')
     = Inr (Json_message
         \<lparr>pm_id = ''m1'', pm_threadId = ''t1'', pm_from = ''a@b.com'', pm_to = [],
          pm_subject = ''hello'', pm_date = [], pm_snippet = ''hi'', pm_body = ''hi there'',
          pm_labels = [''INBOX'']\<rparr>)"
proof -
  let ?entry = "\<lparr>pm_id = ''m1'', pm_threadId = ''t1'', pm_from = ''a@b.com'', pm_to = [],
           pm_subject = ''hello'', pm_date = [], pm_snippet = ''hi'', pm_body = [],
           pm_labels = [''INBOX'']\<rparr>"
  note t = search_results_body_empty
    [of "Inr (sample_client ''hello'')" "''is:unread''" None "[?entry, ?entry]"
      "sample_client ''hello''" "''m1''" "''t1''"]
  have run: "snd (search_emails (Inr (sample_client ''hello'')) ''is:unread'' None)
     = Inr (Json_messages [?entry, ?entry])"
    by (simp add: search_emails_def sample_client_def sample_message_def max_results_or_def
        or_empty_def Let_def push_def msg_headers_def getHeader_def toLowerCase_def
        char_of_def bit_Suc_0_iff)
  have parsed: "parseMessage (sample_message ''hello'') = ?entry\<lparr>pm_body := ''hi there''\<rparr>"
    by (simp add: parseMessage_def parseMessage_body_def sample_message_def msg_headers_def
        or_empty_def Let_def getHeader_def toLowerCase_def char_of_def bit_Suc_0_iff
        body_data_def truthy_str_def decode_samples)
  from t have "snd (read_email (Inr (sample_client ''hello'')) ''m1'')
      = map_sum id (\<lambda>d. Json_message (parseMessage d))
          (messages_get (sample_client ''hello'') ''m1'' ''full'' [])"
    by blast
  then have r: "snd (read_email (Inr (sample_client ''hello'')) ''m1'')
      = Inr (Json_message (?entry\<lparr>pm_body := ''hi there''\<rparr>))"
    by (simp add: sample_client_def parsed)
  from run r show ?thesis by simp
qed

end
